theory Spec2Isabelle
  imports Main "HOL-Library.Multiset" "HOL-Library.AList"
begin

unbundle bit_operations_syntax

section \<open>The control connection of the driver (control_connection.cpp)\<close>

text \<open>
  The control connection is modelled by explicit state passing. A function of the source
  that can dereference a null pointer, divide by zero, index out of range or fail an
  assertion returns a value of \<open>fault + 'a\<close>; \<open>Inl\<close> is the fault.
\<close>

datatype fault = Null_dereference | Division_by_zero | Index_out_of_range | Assertion_failed

subsection \<open>ControlStartupQueryPlan\<close>

text \<open>
  \<open>size_t\<close> is a 64-bit unsigned integer: it is modelled by \<open>nat\<close> with the reduction
  modulo \<open>2 ^ 64\<close> written at every addition.
\<close>

definition size_t_mod :: nat where
  "size_t_mod = 2 ^ 64"

text \<open>
  Modelled from the spec: \<open>Random::next\<close>, declared outside control_connection.cpp.
  The spec has the starting index chosen as a random value modulo the bound; the
  generator is represented by the value \<open>r\<close> it draws, and a bound of zero is a
  division by zero.
\<close>

definition random_next :: "nat \<Rightarrow> nat \<Rightarrow> fault + nat" where
  "random_next r bound = (if bound = 0 then Inl Division_by_zero else Inr (r mod bound))"

record 'h control_startup_query_plan =
  plan_hosts :: "'h list"
  plan_index :: nat
  plan_count :: nat

text \<open>
  The constructor. A \<open>HostMap\<close> is the list of its (address, host) entries in iteration
  order; \<open>random\<close> is \<open>None\<close> for the null pointer.
\<close>

definition ControlStartupQueryPlan ::
  "('a \<times> 'h) list \<Rightarrow> nat option \<Rightarrow> fault + 'h control_startup_query_plan" where
  "ControlStartupQueryPlan hosts random =
     (case (case random of
              None \<Rightarrow> Inr 0
            | Some r \<Rightarrow> random_next r (max 1 (length hosts))) of
        Inl e \<Rightarrow> Inl e
      | Inr i \<Rightarrow> Inr \<lparr>plan_hosts = map snd hosts, plan_index = i, plan_count = 0\<rparr>)"

text \<open>\<open>compute_next\<close> returns the host (\<open>None\<close> for the null \<open>Host::Ptr\<close>) and the plan.\<close>

definition compute_next ::
  "'h control_startup_query_plan \<Rightarrow> fault + ('h option \<times> 'h control_startup_query_plan)" where
  "compute_next p =
     (let size = length (plan_hosts p) in
      if plan_count p \<ge> size then Inr (None, p)
      else if size = 0 then Inl Division_by_zero
      else
        (let index = ((plan_index p + plan_count p) mod size_t_mod) mod size;
             p' = p\<lparr>plan_count := (plan_count p + 1) mod size_t_mod\<rparr>
         in if index < length (plan_hosts p') then Inr (Some (plan_hosts p' ! index), p')
            else Inl Index_out_of_range))"

text \<open>\<open>compute_next_n k p\<close> calls \<open>compute_next\<close> \<open>k\<close> times and collects what it returned.\<close>

fun compute_next_n ::
  "nat \<Rightarrow> 'h control_startup_query_plan \<Rightarrow>
   fault + ('h option list \<times> 'h control_startup_query_plan)" where
  "compute_next_n 0 p = Inr ([], p)"
| "compute_next_n (Suc k) p =
     (case compute_next p of
        Inl e \<Rightarrow> Inl e
      | Inr (h, p') \<Rightarrow>
          (case compute_next_n k p' of
             Inl e \<Rightarrow> Inl e
           | Inr (hs, p'') \<Rightarrow> Inr (h # hs, p'')))"

text \<open>
  \<open>startup_plan_run hosts random k\<close>: build the plan and call \<open>compute_next\<close> on it
  \<open>k\<close> times; the result is what the calls returned, in order.
\<close>

definition startup_plan_run :: "('a \<times> 'h) list \<Rightarrow> nat option \<Rightarrow> nat \<Rightarrow> fault + 'h option list" where
  "startup_plan_run hosts random k =
     (case ControlStartupQueryPlan hosts random of
        Inl e \<Rightarrow> Inl e
      | Inr p \<Rightarrow> (case compute_next_n k p of Inl e \<Rightarrow> Inl e | Inr (hs, p') \<Rightarrow> Inr hs))"

subsection \<open>Addresses, values, rows and hosts\<close>

text \<open>
  Modelled from the spec: \<open>Address\<close>, declared outside control_connection.cpp. An
  address is the textual form of its IP address (what \<open>to_string\<close> prints without the
  port) and a port. \<open>operator==\<close> compares both; \<open>compare\<close> returns zero on equal
  addresses and looks at the port only when asked to; the two bind-any addresses are
  the IPv4 and IPv6 wildcards with port zero.
\<close>

record address =
  address_ip :: string
  address_port :: int

definition to_string :: "address \<Rightarrow> string" where
  "to_string a = address_ip a"

definition compare :: "address \<Rightarrow> address \<Rightarrow> bool \<Rightarrow> int" where
  "compare a b with_port =
     (if with_port
      then (if address_ip a = address_ip b \<and> address_port a = address_port b then 0 else 1)
      else (if address_ip a = address_ip b then 0 else 1))"

definition BIND_ANY_IPV4 :: address where
  "BIND_ANY_IPV4 = \<lparr>address_ip = ''0.0.0.0'', address_port = 0\<rparr>"

definition BIND_ANY_IPV6 :: address where
  "BIND_ANY_IPV6 = \<lparr>address_ip = ''::'', address_port = 0\<rparr>"

text \<open>
  Modelled from the spec: \<open>Value\<close> and its decoder, declared outside
  control_connection.cpp. A value is represented by what the control connection reads
  from it: whether it is null, the IP address \<open>as_inet\<close> decodes (\<open>None\<close> when the
  decoding fails), whether it is a collection, and its text. \<open>as_inet\<close> decodes with the
  port it is given.
\<close>

record "value" =
  value_is_null :: bool
  value_inet :: "string option"
  value_is_collection :: bool
  value_string :: string

definition as_inet :: "value \<Rightarrow> int \<Rightarrow> address option" where
  "as_inet v port =
     (case value_inet v of
        None \<Rightarrow> None
      | Some ip \<Rightarrow> Some \<lparr>address_ip = ip, address_port = port\<rparr>)"

text \<open>
  Modelled from the spec: \<open>Row\<close> and \<open>ResultResponse\<close>, declared outside
  control_connection.cpp. A row is the list of its columns by name; \<open>get_by_name\<close>
  returns the null pointer (\<open>None\<close>) for a column the row does not have, and
  \<open>get_string_by_name\<close> returns false and leaves the output untouched when the column is
  absent or null. A result is the list of its rows.
\<close>

type_synonym row = "(string \<times> value) list"

type_synonym result_response = "row list"

definition get_by_name :: "row \<Rightarrow> string \<Rightarrow> value option" where
  "get_by_name r name = map_of r name"

definition get_string_by_name :: "row \<Rightarrow> string \<Rightarrow> string \<Rightarrow> bool \<times> string" where
  "get_string_by_name r name out =
     (case get_by_name r name of
        None \<Rightarrow> (False, out)
      | Some v \<Rightarrow> if value_is_null v then (False, out) else (True, value_string v))"

definition row_count :: "result_response \<Rightarrow> nat" where
  "row_count res = length res"

text \<open>
  Modelled from the spec: \<open>VersionNumber\<close>, declared outside control_connection.cpp:
  major, minor and patch numbers, compared in this order.
\<close>

record version_number =
  major_version :: nat
  minor_version :: nat
  patch_version :: nat

definition VersionNumber :: "nat \<Rightarrow> nat \<Rightarrow> nat \<Rightarrow> version_number" where
  "VersionNumber a b c = \<lparr>major_version = a, minor_version = b, patch_version = c\<rparr>"

definition version_ge :: "version_number \<Rightarrow> version_number \<Rightarrow> bool" where
  "version_ge v w =
     (major_version v > major_version w \<or>
      (major_version v = major_version w \<and>
       (minor_version v > minor_version w \<or>
        (minor_version v = minor_version w \<and> patch_version v \<ge> patch_version w))))"

text \<open>
  Modelled from the spec: \<open>Host\<close>, declared outside control_connection.cpp, with the
  fields of the spec's host record. A \<open>Host::Ptr\<close> is represented by the host it
  points to, and the null pointer by \<open>None\<close>: apart from \<open>update_node_info\<close>, which
  returns the host it has written, the functions below only read hosts. The spec has
  one up/down flag: \<open>is_down()\<close> is the negation of \<open>host_is_up\<close>.
\<close>

record host =
  host_address :: address
  host_listen_address :: string
  host_dc :: string
  host_rack :: string
  host_cassandra_version :: version_number
  host_was_just_added :: bool
  host_is_up :: bool
  host_mark :: bool

datatype log_level = LOG_ERROR | LOG_WARN | LOG_INFO | LOG_DEBUG | LOG_TRACE

subsection \<open>The address resolver\<close>

text \<open>
  \<open>determine_address_for_peer_host\<close>. The two values are pointers (\<open>None\<close> is null).
  The result is the list of the messages logged and, for the return value true, the
  address left in \<open>output\<close>; no caller reads \<open>output\<close> after false.
\<close>

definition determine_address_for_peer_host ::
  "address \<Rightarrow> value option \<Rightarrow> value option \<Rightarrow> fault + (log_level list \<times> address option)" where
  "determine_address_for_peer_host connected_address peer_value rpc_value =
     (case peer_value of
        None \<Rightarrow> Inl Null_dereference
      | Some pv \<Rightarrow>
          (case as_inet pv (address_port connected_address) of
             None \<Rightarrow> Inr ([LOG_WARN], None)
           | Some peer_address \<Rightarrow>
               (case rpc_value of
                  None \<Rightarrow> Inl Null_dereference
                | Some rv \<Rightarrow>
                    if \<not> value_is_null rv then
                      (case as_inet rv (address_port connected_address) of
                         None \<Rightarrow> Inr ([LOG_WARN], None)
                       | Some output \<Rightarrow>
                           if connected_address = output \<or> connected_address = peer_address
                           then Inr ([LOG_DEBUG], None)
                           else if compare BIND_ANY_IPV4 output False = 0 \<or>
                                   compare BIND_ANY_IPV6 output False = 0
                           then Inr ([LOG_WARN], Some peer_address)
                           else Inr ([], Some output))
                    else Inr ([LOG_WARN], None))))"

text \<open>
  The resolver as the spec words it (section 4.1), rule by rule, on the decoded
  addresses: a rejection with its reason, or the address.
\<close>

datatype rejection = Invalid_peer | No_rpc_address | Invalid_rpc | Self_referential_peer_entry

definition resolve_peer_address :: "address \<Rightarrow> value \<Rightarrow> value \<Rightarrow> rejection + address" where
  "resolve_peer_address A P R =
     (case as_inet P (address_port A) of
        None \<Rightarrow> Inl Invalid_peer
      | Some p \<Rightarrow>
          if value_is_null R then Inl No_rpc_address
          else
            (case as_inet R (address_port A) of
               None \<Rightarrow> Inl Invalid_rpc
             | Some r \<Rightarrow>
                 if r = A \<or> p = A then Inl Self_referential_peer_entry
                 else if address_ip r = ''0.0.0.0'' \<or> address_ip r = ''::'' then Inr p
                 else Inr r))"

subsection \<open>The control connection and its collaborators\<close>

datatype control_connection_state = CONTROL_STATE_NEW | CONTROL_STATE_READY | CONTROL_STATE_CLOSED

datatype cass_error =
    CASS_ERROR_LIB_NO_HOSTS_AVAILABLE
  | CASS_ERROR_LIB_UNABLE_TO_DETERMINE_PROTOCOL
  | CASS_ERROR_SERVER_BAD_CREDENTIALS
  | CASS_ERROR_LIB_UNABLE_TO_CONNECT

datatype event_type =
    CASS_EVENT_TOPOLOGY_CHANGE
  | CASS_EVENT_STATUS_CHANGE
  | CASS_EVENT_SCHEMA_CHANGE
  | Other_event_type

datatype topology_change = NEW_NODE | REMOVED_NODE | MOVED_NODE

datatype status_change = UP | DOWN

datatype schema_change = CREATED | UPDATED | DROPPED

text \<open>\<open>EventResponse::TYPE\<close> is \<open>USER_TYPE\<close> here: \<open>TYPE\<close> is a reserved word.\<close>

datatype schema_change_target = KEYSPACE | TABLE | USER_TYPE | FUNCTION | AGGREGATE

text \<open>
  An \<open>EventResponse\<close>, by the accessors \<open>on_event\<close> calls: the accessor \<open>a()\<close> is
  the field \<open>ev_a\<close>. \<open>Other_event_type\<close> stands for every value of \<open>event_type()\<close>
  that is none of the three constants.
\<close>

record event_response =
  ev_event_type :: event_type
  ev_affected_node :: address
  ev_topology_change :: topology_change
  ev_status_change :: status_change
  ev_schema_change :: schema_change
  ev_schema_change_target :: schema_change_target
  ev_keyspace :: string
  ev_target :: string
  ev_arg_types :: "string list"

text \<open>The static member functions a request callback is built with.\<close>

datatype callback =
    On_query_hosts
  | On_query_meta_schema
  | On_refresh_node_info
  | On_refresh_node_info_all
  | On_refresh_keyspace
  | On_refresh_table_or_view
  | On_refresh_type
  | On_refresh_function

datatype bound_value = CassString string | Collection "string list"

text \<open>
  The request callbacks handed to \<open>write_and_flush\<close>, with the members of each class.
  A chained callback holds its chain of (key, query) pairs in the order of the
  \<open>chain\<close> calls; a \<open>QueryRequest\<close> is its query and its bound values.
\<close>

datatype request_callback =
    ChainedControlRequestCallback "(string \<times> string) list" callback
  | RefreshNodeCallback host bool string callback
  | RefreshTableCallback string string "(string \<times> string) list" callback
  | RefreshFunctionCallback string string "string list" bool "string \<times> bound_value list" callback
  | RefreshKeyspaceCallback string string callback
  | RefreshTypeCallback string string string callback

text \<open>The calls on \<open>session_->metadata()\<close>.\<close>

datatype metadata_call =
    Clear_and_update_back version_number
  | Update_keyspaces version_number result_response
  | Update_tables version_number result_response
  | Update_views version_number result_response
  | Update_columns version_number result_response
  | Update_indexes version_number result_response
  | Update_user_types version_number result_response
  | Update_functions version_number result_response
  | Update_aggregates version_number result_response
  | Swap_to_back_and_update_front
  | Drop_keyspace string
  | Drop_table_or_view string string
  | Drop_user_type string string
  | Drop_function string "string \<times> string list"
  | Drop_aggregate string "string \<times> string list"

text \<open>
  Every call the control connection makes on a collaborator (the logger, the session,
  the token map, the load-balancing policy, the metadata, the connection, a connector,
  the reconnect timer, the event loop) is recorded, in order, in the trace of the state.
  A host argument is recorded as the host was at the call.
\<close>

datatype action =
    Log log_level
  | Uv_update_time
  | Session_on_control_connection_error cass_error string
  | Session_on_control_connection_ready
  | Session_add_host address bool
  | Session_on_add host
  | Session_on_remove host
  | Session_on_up host
  | Session_on_down host
  | Session_purge_hosts bool
  | Session_load_balancing_policy_host_add_remove host bool
  | Session_token_map_init string
  | Session_token_map_hosts_cleared
  | Session_token_map_host_add host "value"
  | Session_token_map_host_update host "value"
  | Session_token_map_host_remove "host option"
  | Session_token_map_keyspaces_add version_number "result_response option"
  | Session_token_map_keyspaces_update version_number result_response
  | Session_metadata metadata_call
  | Connection_close
  | Connection_defunct
  | Connection_write_and_flush request_callback
  | Connector_connect address int "event_type list"
  | Reconnect_timer_start nat
  | Reconnect_timer_stop

text \<open>
  Modelled from the spec: \<open>Connection\<close>, declared outside control_connection.cpp: the
  address it is connected to, and whether a stream id is left, which is what
  \<open>write_and_flush\<close> returns.
\<close>

record connection =
  connection_address :: address
  connection_stream_available :: bool

text \<open>
  Modelled from the spec: \<open>Session\<close> and its configuration, declared outside
  control_connection.cpp: the host map (its entries in iteration order), the random
  generator (\<open>None\<close> when there is none), the three configuration values \<open>connect\<close>
  reads, the current host mark, the hosts of the plan \<open>new_query_plan\<close> returns, and
  whether the token map has been initialised.
\<close>

record session =
  session_hosts :: "(address \<times> host) list"
  session_random :: "nat option"
  config_protocol_version :: int
  config_use_schema :: bool
  config_token_aware_routing :: bool
  session_current_host_mark :: bool
  session_new_query_plan :: "host list"
  session_token_map_initialized :: bool

text \<open>
  A \<open>QueryPlan\<close> is the startup plan of this file or a plan of the session, which is
  represented by the hosts it has yet to return.
\<close>

datatype query_plan =
    Startup_plan "host control_startup_query_plan"
  | Session_plan "host list"

definition query_plan_compute_next :: "query_plan \<Rightarrow> fault + (host option \<times> query_plan)" where
  "query_plan_compute_next qp =
     (case qp of
        Startup_plan p \<Rightarrow>
          (case compute_next p of
             Inl e \<Rightarrow> Inl e
           | Inr (h, p') \<Rightarrow> Inr (h, Startup_plan p'))
      | Session_plan hs \<Rightarrow>
          (case hs of
             [] \<Rightarrow> Inr (None, Session_plan [])
           | h # rest \<Rightarrow> Inr (Some h, Session_plan rest)))"

text \<open>
  The members of \<open>ControlConnection\<close>: the member \<open>m_\<close> of the source is the field
  \<open>cc_m\<close>. Pointers are options, \<open>None\<close> for null. The session a non-null \<open>session_\<close>
  points to is held in the field, so that the calls that change the session's host map
  change it here.
\<close>

record control_connection =
  cc_state :: control_connection_state
  cc_session :: "session option"
  cc_connection :: "connection option"
  cc_current_host :: "host option"
  cc_query_plan :: "query_plan option"
  cc_event_types :: "event_type list"
  cc_protocol_version :: int
  cc_last_connection_error :: string
  cc_use_schema :: bool
  cc_token_aware_routing :: bool
  cc_cassandra_version :: version_number
  cc_trace :: "action list"

text \<open>
  The constants of the protocol, declared outside control_connection.cpp, are parameters
  of the functions that use them.
\<close>

record protocol_constants =
  DSE_PROTOCOL_VERSION_BIT :: int
  DSE_PROTOCOL_VERSION_MASK :: int
  CASS_HIGHEST_SUPPORTED_PROTOCOL_VERSION :: int

definition emit :: "action \<Rightarrow> control_connection \<Rightarrow> control_connection" where
  "emit a cc = cc\<lparr>cc_trace := cc_trace cc @ [a]\<rparr>"

text \<open>A call through \<open>session_\<close> dereferences it.\<close>

definition session_call :: "action \<Rightarrow> control_connection \<Rightarrow> fault + control_connection" where
  "session_call a cc =
     (case cc_session cc of
        None \<Rightarrow> Inl Null_dereference
      | Some s \<Rightarrow> Inr (emit a cc))"

text \<open>A call through \<open>connection_\<close> dereferences it.\<close>

definition connection_call :: "action \<Rightarrow> control_connection \<Rightarrow> fault + control_connection" where
  "connection_call a cc =
     (case cc_connection cc of
        None \<Rightarrow> Inl Null_dereference
      | Some c \<Rightarrow> Inr (emit a cc))"

text \<open>Sequencing: the second step runs on the state the first one returned.\<close>

definition and_then ::
  "fault + control_connection \<Rightarrow> (control_connection \<Rightarrow> fault + control_connection) \<Rightarrow>
   fault + control_connection" where
  "and_then r f = (case r of Inl e \<Rightarrow> Inl e | Inr cc \<Rightarrow> f cc)"

definition ControlConnection :: control_connection where
  "ControlConnection =
     \<lparr>cc_state = CONTROL_STATE_NEW, cc_session = None, cc_connection = None,
      cc_current_host = None, cc_query_plan = None, cc_event_types = [],
      cc_protocol_version = 0, cc_last_connection_error = [], cc_use_schema = False,
      cc_token_aware_routing = False, cc_cassandra_version = VersionNumber 0 0 0,
      cc_trace = []\<rparr>"

definition clear :: "control_connection \<Rightarrow> control_connection" where
  "clear cc =
     (emit Reconnect_timer_stop
        (cc\<lparr>cc_state := CONTROL_STATE_NEW, cc_session := None, cc_connection := None\<rparr>))
     \<lparr>cc_query_plan := None, cc_protocol_version := 0, cc_last_connection_error := [],
      cc_use_schema := False, cc_token_aware_routing := False\<rparr>"

definition close :: "control_connection \<Rightarrow> control_connection" where
  "close cc =
     (let cc1 = cc\<lparr>cc_state := CONTROL_STATE_CLOSED\<rparr>;
          cc2 = (case cc_connection cc1 of None \<Rightarrow> cc1 | Some c \<Rightarrow> emit Connection_close cc1)
      in emit Reconnect_timer_stop cc2)"

definition schedule_reconnect :: "nat \<Rightarrow> control_connection \<Rightarrow> fault + control_connection" where
  "schedule_reconnect ms cc = session_call (Reconnect_timer_start ms) cc"

text \<open>
  The second half of \<open>reconnect\<close>, from the test of \<open>connection_\<close> on: the connection is
  closed when there is one, and a connector is started on the current host.
\<close>

definition reconnect_connector :: "control_connection \<Rightarrow> fault + control_connection" where
  "reconnect_connector cc =
     (let cc1 = (case cc_connection cc of None \<Rightarrow> cc | Some c \<Rightarrow> emit Connection_close cc) in
      case cc_current_host cc1 of
        None \<Rightarrow> Inl Null_dereference
      | Some h \<Rightarrow>
          session_call (Connector_connect (host_address h) (cc_protocol_version cc1)
                          (cc_event_types cc1)) cc1)"

definition reconnect :: "bool \<Rightarrow> control_connection \<Rightarrow> fault + control_connection" where
  "reconnect retry_current_host cc =
     (if cc_state cc = CONTROL_STATE_CLOSED then Inr cc
      else if \<not> retry_current_host then
        (case cc_query_plan cc of
           None \<Rightarrow> Inl Null_dereference
         | Some qp \<Rightarrow>
             (case query_plan_compute_next qp of
                Inl e \<Rightarrow> Inl e
              | Inr (h, qp') \<Rightarrow>
                  (let cc1 = cc\<lparr>cc_query_plan := Some qp', cc_current_host := h\<rparr> in
                   case h of
                     None \<Rightarrow>
                       if cc_state cc1 = CONTROL_STATE_READY then schedule_reconnect 1000 cc1
                       else session_call
                              (Session_on_control_connection_error CASS_ERROR_LIB_NO_HOSTS_AVAILABLE
                                 ''No hosts available for the control connection'') cc1
                   | Some h' \<Rightarrow> reconnect_connector cc1)))
      else reconnect_connector cc)"

definition connect :: "protocol_constants \<Rightarrow> session \<Rightarrow> control_connection \<Rightarrow> fault + control_connection" where
  "connect K s cc =
     (case ControlStartupQueryPlan (session_hosts s) (session_random s) of
        Inl e \<Rightarrow> Inl e
      | Inr plan \<Rightarrow>
          (let cc1 = cc\<lparr>cc_session := Some s, cc_query_plan := Some (Startup_plan plan),
                          cc_protocol_version := config_protocol_version s,
                          cc_use_schema := config_use_schema s,
                          cc_token_aware_routing := config_token_aware_routing s\<rparr>;
               cc2 = (if cc_protocol_version cc1 < 0
                      then cc1\<lparr>cc_protocol_version := CASS_HIGHEST_SUPPORTED_PROTOCOL_VERSION K\<rparr>
                      else cc1);
               cc3 = (if cc_use_schema cc2 \<or> cc_token_aware_routing cc2
                      then cc2\<lparr>cc_event_types := [CASS_EVENT_TOPOLOGY_CHANGE, CASS_EVENT_STATUS_CHANGE,
                                                   CASS_EVENT_SCHEMA_CHANGE]\<rparr>
                      else cc2\<lparr>cc_event_types := [CASS_EVENT_TOPOLOGY_CHANGE, CASS_EVENT_STATUS_CHANGE]\<rparr>)
           in reconnect False cc3))"

definition on_close :: "control_connection \<Rightarrow> fault + control_connection" where
  "on_close cc =
     (let cc1 = cc\<lparr>cc_connection := None\<rparr>;
          cc2 = (if cc_state cc1 \<noteq> CONTROL_STATE_CLOSED then emit (Log LOG_WARN) cc1 else cc1)
      in reconnect False cc2)"

definition on_reconnect :: "control_connection \<Rightarrow> fault + control_connection" where
  "on_reconnect cc =
     (case cc_session cc of
        None \<Rightarrow> Inl Null_dereference
      | Some s \<Rightarrow>
          reconnect False (cc\<lparr>cc_query_plan := Some (Session_plan (session_new_query_plan s))\<rparr>))"

subsection \<open>The queries\<close>

text \<open>A string literal cannot end with a quote character: it is appended.\<close>

definition quote :: string where
  "quote = [CHR 0x27]"

definition SELECT_LOCAL :: string where
  "SELECT_LOCAL =
     ''SELECT data_center, rack, release_version FROM system.local WHERE key='local'' @ quote"

definition SELECT_LOCAL_TOKENS :: string where
  "SELECT_LOCAL_TOKENS =
     ''SELECT data_center, rack, release_version, partitioner, tokens FROM system.local WHERE key='local''
     @ quote"

definition SELECT_PEERS :: string where
  "SELECT_PEERS = ''SELECT peer, data_center, rack, release_version, rpc_address FROM system.peers''"

definition SELECT_PEERS_TOKENS :: string where
  "SELECT_PEERS_TOKENS =
     ''SELECT peer, data_center, rack, release_version, rpc_address, tokens FROM system.peers''"

definition SELECT_KEYSPACES_20 :: string where
  "SELECT_KEYSPACES_20 = ''SELECT * FROM system.schema_keyspaces''"

definition SELECT_COLUMN_FAMILIES_20 :: string where
  "SELECT_COLUMN_FAMILIES_20 = ''SELECT * FROM system.schema_columnfamilies''"

definition SELECT_COLUMNS_20 :: string where
  "SELECT_COLUMNS_20 = ''SELECT * FROM system.schema_columns''"

definition SELECT_USERTYPES_21 :: string where
  "SELECT_USERTYPES_21 = ''SELECT * FROM system.schema_usertypes''"

definition SELECT_FUNCTIONS_22 :: string where
  "SELECT_FUNCTIONS_22 = ''SELECT * FROM system.schema_functions''"

definition SELECT_AGGREGATES_22 :: string where
  "SELECT_AGGREGATES_22 = ''SELECT * FROM system.schema_aggregates''"

definition SELECT_KEYSPACES_30 :: string where
  "SELECT_KEYSPACES_30 = ''SELECT * FROM system_schema.keyspaces''"

definition SELECT_TABLES_30 :: string where
  "SELECT_TABLES_30 = ''SELECT * FROM system_schema.tables''"

definition SELECT_VIEWS_30 :: string where
  "SELECT_VIEWS_30 = ''SELECT * FROM system_schema.views''"

definition SELECT_COLUMNS_30 :: string where
  "SELECT_COLUMNS_30 = ''SELECT * FROM system_schema.columns''"

definition SELECT_INDEXES_30 :: string where
  "SELECT_INDEXES_30 = ''SELECT * FROM system_schema.indexes''"

definition SELECT_USERTYPES_30 :: string where
  "SELECT_USERTYPES_30 = ''SELECT * FROM system_schema.types''"

definition SELECT_FUNCTIONS_30 :: string where
  "SELECT_FUNCTIONS_30 = ''SELECT * FROM system_schema.functions''"

definition SELECT_AGGREGATES_30 :: string where
  "SELECT_AGGREGATES_30 = ''SELECT * FROM system_schema.aggregates''"

subsection \<open>Connecting\<close>

text \<open>
  The constructors of the request callbacks call \<open>uv_update_time\<close> on the loop of the
  session; \<open>new_callback\<close> is that call, made before every \<open>write_and_flush\<close> below.
\<close>

definition new_callback :: "control_connection \<Rightarrow> fault + control_connection" where
  "new_callback cc = session_call Uv_update_time cc"

definition query_meta_hosts :: "control_connection \<Rightarrow> fault + control_connection" where
  "query_meta_hosts cc =
     and_then (new_callback cc) (\<lambda>cc1.
       connection_call
         (Connection_write_and_flush
            (ChainedControlRequestCallback
               [(''local'', if cc_token_aware_routing cc1 then SELECT_LOCAL_TOKENS else SELECT_LOCAL),
                (''peers'', if cc_token_aware_routing cc1 then SELECT_PEERS_TOKENS else SELECT_PEERS)]
               On_query_hosts)) cc1)"

text \<open>
  Modelled from the spec: \<open>Connector\<close>, declared outside control_connection.cpp, by the
  accessors \<open>handle_connect\<close> calls; \<open>connector_connection\<close> is the connection that
  \<open>release_connection\<close> hands over.
\<close>

record connector =
  connector_is_ok :: bool
  connector_is_invalid_protocol :: bool
  connector_is_auth_error :: bool
  connector_is_ssl_error :: bool
  connector_error_message :: string
  connector_connection :: connection

text \<open>
  The decrement of \<open>handle_connect\<close>: the version tried after \<open>v\<close> was refused.
  \<open>protocol_version_\<close> is an \<open>int\<close>; the decrement is only reached with \<open>v > 1\<close>, where
  it cannot overflow.
\<close>

definition next_protocol_version :: "protocol_constants \<Rightarrow> int \<Rightarrow> int" where
  "next_protocol_version K v =
     (let is_dse_version = (v AND DSE_PROTOCOL_VERSION_BIT K \<noteq> 0) in
      if is_dse_version then
        (let dse_version = v AND DSE_PROTOCOL_VERSION_MASK K in
         if dse_version \<le> 1 then CASS_HIGHEST_SUPPORTED_PROTOCOL_VERSION K
         else v - 1)
      else v - 1)"

text \<open>
  The failure branch of \<open>handle_connect\<close> while the state is \<open>CONTROL_STATE_NEW\<close>: the
  result is \<open>Inl\<close> of the state at an early return, or \<open>Inr\<close> of the state and
  \<open>retry_current_host\<close>.
\<close>

definition handle_connect_new ::
  "protocol_constants \<Rightarrow> connector \<Rightarrow> control_connection \<Rightarrow>
   fault + (control_connection + (control_connection \<times> bool))" where
  "handle_connect_new K connector cc =
     (if connector_is_invalid_protocol connector then
        (if cc_protocol_version cc \<le> 1 then
           (case session_call
                   (Session_on_control_connection_error CASS_ERROR_LIB_UNABLE_TO_DETERMINE_PROTOCOL
                      ''Not even protocol version 1 is supported'')
                   (emit (Log LOG_ERROR) cc) of
              Inl e \<Rightarrow> Inl e
            | Inr cc1 \<Rightarrow> Inr (Inl cc1))
         else
           Inr (Inr (emit (Log LOG_WARN)
                       (cc\<lparr>cc_protocol_version := next_protocol_version K (cc_protocol_version cc)\<rparr>),
                     True)))
      else if connector_is_auth_error connector then
        (case session_call
                (Session_on_control_connection_error CASS_ERROR_SERVER_BAD_CREDENTIALS
                   (connector_error_message connector)) cc of
           Inl e \<Rightarrow> Inl e
         | Inr cc1 \<Rightarrow> Inr (Inl cc1))
      else if connector_is_ssl_error connector then
        (case session_call
                (Session_on_control_connection_error CASS_ERROR_LIB_UNABLE_TO_CONNECT
                   (connector_error_message connector)) cc of
           Inl e \<Rightarrow> Inl e
         | Inr cc1 \<Rightarrow> Inr (Inl cc1))
      else Inr (Inr (cc, False)))"

definition handle_connect ::
  "protocol_constants \<Rightarrow> connector \<Rightarrow> control_connection \<Rightarrow> fault + control_connection" where
  "handle_connect K connector cc =
     (if connector_is_ok connector then
        query_meta_hosts
          ((emit (Log LOG_DEBUG) cc)\<lparr>cc_connection := Some (connector_connection connector)\<rparr>)
      else
        (case (if cc_state cc = CONTROL_STATE_NEW then handle_connect_new K connector cc
               else Inr (Inr (cc, False))) of
           Inl e \<Rightarrow> Inl e
         | Inr (Inl returned) \<Rightarrow> Inr returned
         | Inr (Inr (cc1, retry_current_host)) \<Rightarrow>
             (let cc2 =
                (if cc_state cc1 \<noteq> CONTROL_STATE_CLOSED \<and> \<not> retry_current_host then
                   (if cc_state cc1 = CONTROL_STATE_NEW then emit (Log LOG_ERROR) cc1
                    else emit (Log LOG_WARN) cc1)
                 else cc1)
              in reconnect retry_current_host cc2)))"

subsection \<open>The bulk schema read\<close>

text \<open>The chain of (key, query) pairs that \<open>query_meta_schema\<close> builds.\<close>

definition query_meta_schema_chain :: "control_connection \<Rightarrow> (string \<times> string) list" where
  "query_meta_schema_chain cc =
     (if version_ge (cc_cassandra_version cc) (VersionNumber 3 0 0) then
        (''keyspaces'', SELECT_KEYSPACES_30) #
        (if cc_use_schema cc then
           [(''tables'', SELECT_TABLES_30),
            (''views'', SELECT_VIEWS_30),
            (''columns'', SELECT_COLUMNS_30),
            (''indexes'', SELECT_INDEXES_30),
            (''user_types'', SELECT_USERTYPES_30),
            (''functions'', SELECT_FUNCTIONS_30),
            (''aggregates'', SELECT_AGGREGATES_30)]
         else [])
      else
        (''keyspaces'', SELECT_KEYSPACES_20) #
        (if cc_use_schema cc then
           [(''tables'', SELECT_COLUMN_FAMILIES_20),
            (''columns'', SELECT_COLUMNS_20)]
           @ (if version_ge (cc_cassandra_version cc) (VersionNumber 2 1 0)
              then [(''user_types'', SELECT_USERTYPES_21)] else [])
           @ (if version_ge (cc_cassandra_version cc) (VersionNumber 2 2 0)
              then [(''functions'', SELECT_FUNCTIONS_22), (''aggregates'', SELECT_AGGREGATES_22)]
              else [])
         else []))"

definition query_meta_schema :: "control_connection \<Rightarrow> fault + control_connection" where
  "query_meta_schema cc =
     (if \<not> cc_use_schema cc \<and> \<not> cc_token_aware_routing cc then Inr cc
      else
        and_then (new_callback cc) (\<lambda>cc1.
          connection_call
            (Connection_write_and_flush
               (ChainedControlRequestCallback (query_meta_schema_chain cc1) On_query_meta_schema))
            cc1))"

text \<open>
  The table of section 4.5 of the spec: the eight logical tables in its order, the key
  of each, its query on the legacy and on the modern layout (views and indexes have
  none on the legacy layout) and the version from which it is read.
\<close>

datatype logical_table =
  Keyspaces | Tables | Views | Columns | Indexes | User_types | Functions | Aggregates

definition logical_tables :: "logical_table list" where
  "logical_tables = [Keyspaces, Tables, Views, Columns, Indexes, User_types, Functions, Aggregates]"

fun table_key :: "logical_table \<Rightarrow> string" where
  "table_key Keyspaces = ''keyspaces''"
| "table_key Tables = ''tables''"
| "table_key Views = ''views''"
| "table_key Columns = ''columns''"
| "table_key Indexes = ''indexes''"
| "table_key User_types = ''user_types''"
| "table_key Functions = ''functions''"
| "table_key Aggregates = ''aggregates''"

fun legacy_select :: "logical_table \<Rightarrow> string option" where
  "legacy_select Keyspaces = Some ''SELECT * FROM system.schema_keyspaces''"
| "legacy_select Tables = Some ''SELECT * FROM system.schema_columnfamilies''"
| "legacy_select Views = None"
| "legacy_select Columns = Some ''SELECT * FROM system.schema_columns''"
| "legacy_select Indexes = None"
| "legacy_select User_types = Some ''SELECT * FROM system.schema_usertypes''"
| "legacy_select Functions = Some ''SELECT * FROM system.schema_functions''"
| "legacy_select Aggregates = Some ''SELECT * FROM system.schema_aggregates''"

fun modern_select :: "logical_table \<Rightarrow> string option" where
  "modern_select Keyspaces = Some ''SELECT * FROM system_schema.keyspaces''"
| "modern_select Tables = Some ''SELECT * FROM system_schema.tables''"
| "modern_select Views = Some ''SELECT * FROM system_schema.views''"
| "modern_select Columns = Some ''SELECT * FROM system_schema.columns''"
| "modern_select Indexes = Some ''SELECT * FROM system_schema.indexes''"
| "modern_select User_types = Some ''SELECT * FROM system_schema.types''"
| "modern_select Functions = Some ''SELECT * FROM system_schema.functions''"
| "modern_select Aggregates = Some ''SELECT * FROM system_schema.aggregates''"

fun version_gate :: "logical_table \<Rightarrow> version_number" where
  "version_gate Keyspaces = VersionNumber 0 0 0"
| "version_gate Tables = VersionNumber 0 0 0"
| "version_gate Views = VersionNumber 3 0 0"
| "version_gate Columns = VersionNumber 0 0 0"
| "version_gate Indexes = VersionNumber 3 0 0"
| "version_gate User_types = VersionNumber 2 1 0"
| "version_gate Functions = VersionNumber 2 2 0"
| "version_gate Aggregates = VersionNumber 2 2 0"

text \<open>
  The chain the spec's table gives for a server version: keyspaces always, the other
  tables with schema tracking only, each from its version on, on the layout of the
  version.
\<close>

definition gated_schema_chain :: "bool \<Rightarrow> version_number \<Rightarrow> (string \<times> string) list" where
  "gated_schema_chain use_schema V =
     List.map_filter
       (\<lambda>t. if (t = Keyspaces \<or> use_schema) \<and> version_ge V (version_gate t)
            then map_option (Pair (table_key t))
                   (if version_ge V (VersionNumber 3 0 0) then modern_select t else legacy_select t)
            else None)
       logical_tables"

subsection \<open>The handler of the bulk schema read\<close>

text \<open>
  The responses of a chained callback are the list of its (key, result) pairs;
  \<open>callback->result(key)\<close> is the null pointer for a key without a response.
\<close>

definition chain_result :: "(string \<times> result_response) list \<Rightarrow> string \<Rightarrow> result_response option" where
  "chain_result responses key = map_of responses key"

text \<open>One \<open>if (result) session->metadata().update_...(cassandra_version, result.get())\<close>.\<close>

definition metadata_update ::
  "(version_number \<Rightarrow> result_response \<Rightarrow> metadata_call) \<Rightarrow> result_response option \<Rightarrow>
   control_connection \<Rightarrow> fault + control_connection" where
  "metadata_update f r cc =
     (case r of
        None \<Rightarrow> Inr cc
      | Some res \<Rightarrow> session_call (Session_metadata (f (cc_cassandra_version cc) res)) cc)"

definition on_query_meta_schema ::
  "(string \<times> result_response) list \<Rightarrow> control_connection \<Rightarrow> fault + control_connection" where
  "on_query_meta_schema responses cc =
     (case cc_connection cc of
        None \<Rightarrow> Inr cc
      | Some connection \<Rightarrow>
          (let is_initial_connection = (cc_state cc = CONTROL_STATE_NEW) in
           and_then
             (if cc_token_aware_routing cc
              then session_call
                     (Session_token_map_keyspaces_add (cc_cassandra_version cc)
                        (chain_result responses ''keyspaces'')) cc
              else Inr cc) (\<lambda>cc1.
           and_then
             (if cc_use_schema cc1 then
                and_then (session_call
                            (Session_metadata (Clear_and_update_back (cc_cassandra_version cc1))) cc1) (\<lambda>c.
                and_then (metadata_update Update_keyspaces (chain_result responses ''keyspaces'') c) (\<lambda>c.
                and_then (metadata_update Update_tables (chain_result responses ''tables'') c) (\<lambda>c.
                and_then (metadata_update Update_views (chain_result responses ''views'') c) (\<lambda>c.
                and_then (metadata_update Update_columns (chain_result responses ''columns'') c) (\<lambda>c.
                and_then (metadata_update Update_indexes (chain_result responses ''indexes'') c) (\<lambda>c.
                and_then (metadata_update Update_user_types (chain_result responses ''user_types'') c) (\<lambda>c.
                and_then (metadata_update Update_functions (chain_result responses ''functions'') c) (\<lambda>c.
                and_then (metadata_update Update_aggregates (chain_result responses ''aggregates'') c) (\<lambda>c.
                session_call (Session_metadata Swap_to_back_and_update_front) c)))))))))
              else Inr cc1) (\<lambda>cc2.
           if is_initial_connection then
             (case cc_session cc2 of
                None \<Rightarrow> Inl Null_dereference
              | Some s \<Rightarrow>
                  Inr ((emit Session_on_control_connection_ready
                          (cc2\<lparr>cc_state := CONTROL_STATE_READY\<rparr>))
                         \<lparr>cc_query_plan := Some (Session_plan (session_new_query_plan s))\<rparr>))
           else Inr cc2))))"

text \<open>
  Modelled from the spec: \<open>Metadata\<close>, declared outside control_connection.cpp. The spec
  has a double buffer: the back buffer is cleared, every result is written into the
  back, and back and front are swapped; readers see the front. A schema is represented
  by the calls written into it since it was empty. \<open>md_updating_back\<close> says which buffer
  the \<open>update_\<close> and \<open>drop_\<close> calls write: the back one from \<open>clear_and_update_back\<close>
  on, the front one from \<open>swap_to_back_and_update_front\<close> on.
\<close>

record metadata =
  md_front :: "metadata_call list"
  md_back :: "metadata_call list"
  md_updating_back :: bool

fun metadata_apply :: "metadata \<Rightarrow> metadata_call \<Rightarrow> metadata" where
  "metadata_apply m (Clear_and_update_back v) = m\<lparr>md_back := [], md_updating_back := True\<rparr>"
| "metadata_apply m Swap_to_back_and_update_front =
     m\<lparr>md_front := md_back m, md_back := md_front m, md_updating_back := False\<rparr>"
| "metadata_apply m c =
     (if md_updating_back m then m\<lparr>md_back := md_back m @ [c]\<rparr>
      else m\<lparr>md_front := md_front m @ [c]\<rparr>)"

text \<open>
  The metadata calls of the bulk handler between the clearing and the swap: one update
  for each result that is present, in the order of the handler.
\<close>

definition present_update ::
  "(result_response \<Rightarrow> metadata_call) \<Rightarrow> result_response option \<Rightarrow> metadata_call list" where
  "present_update f r = (case r of None \<Rightarrow> [] | Some res \<Rightarrow> [f res])"

definition bulk_updates ::
  "version_number \<Rightarrow> (string \<times> result_response) list \<Rightarrow> metadata_call list" where
  "bulk_updates V responses =
     present_update (Update_keyspaces V) (chain_result responses ''keyspaces'')
     @ present_update (Update_tables V) (chain_result responses ''tables'')
     @ present_update (Update_views V) (chain_result responses ''views'')
     @ present_update (Update_columns V) (chain_result responses ''columns'')
     @ present_update (Update_indexes V) (chain_result responses ''indexes'')
     @ present_update (Update_user_types V) (chain_result responses ''user_types'')
     @ present_update (Update_functions V) (chain_result responses ''functions'')
     @ present_update (Update_aggregates V) (chain_result responses ''aggregates'')"

subsection \<open>The handlers of the targeted schema refreshes\<close>

text \<open>
  The arguments before the state are the members of the callback that the handler
  reads, and its result; the result of a single-query callback is not null.
\<close>

definition on_refresh_keyspace ::
  "string \<Rightarrow> result_response \<Rightarrow> control_connection \<Rightarrow> fault + control_connection" where
  "on_refresh_keyspace keyspace_name result cc =
     (if row_count result = 0 then Inr (emit (Log LOG_ERROR) cc)
      else
        and_then
          (if cc_token_aware_routing cc
           then session_call
                  (Session_token_map_keyspaces_update (cc_cassandra_version cc) result) cc
           else Inr cc) (\<lambda>cc1.
        if cc_use_schema cc1
        then session_call (Session_metadata (Update_keyspaces (cc_cassandra_version cc1) result)) cc1
        else Inr cc1))"

definition on_refresh_table_or_view ::
  "string \<Rightarrow> string \<Rightarrow> (string \<times> result_response) list \<Rightarrow> control_connection \<Rightarrow>
   fault + control_connection" where
  "on_refresh_table_or_view keyspace_name table_or_view_name responses cc =
     (let tables_result = chain_result responses ''tables'';
          rest = (\<lambda>cc1.
            and_then (metadata_update Update_columns (chain_result responses ''columns'') cc1) (\<lambda>cc2.
            metadata_update Update_indexes (chain_result responses ''indexes'') cc2))
      in
      if (case tables_result of None \<Rightarrow> True | Some t \<Rightarrow> row_count t = 0) then
        (let views_result = chain_result responses ''views'' in
         case views_result of
           None \<Rightarrow> Inr (emit (Log LOG_ERROR) cc)
         | Some v \<Rightarrow>
             if row_count v = 0 then Inr (emit (Log LOG_ERROR) cc)
             else and_then
                    (session_call (Session_metadata (Update_views (cc_cassandra_version cc) v)) cc)
                    rest)
      else and_then (metadata_update Update_tables tables_result cc) rest)"

definition on_refresh_type ::
  "string \<Rightarrow> string \<Rightarrow> result_response \<Rightarrow> control_connection \<Rightarrow> fault + control_connection" where
  "on_refresh_type keyspace_name type_name result cc =
     (if row_count result = 0 then Inr (emit (Log LOG_ERROR) cc)
      else session_call (Session_metadata (Update_user_types (cc_cassandra_version cc) result)) cc)"

definition on_refresh_function ::
  "string \<Rightarrow> string \<Rightarrow> string list \<Rightarrow> bool \<Rightarrow> result_response \<Rightarrow> control_connection \<Rightarrow>
   fault + control_connection" where
  "on_refresh_function keyspace_name function_name arg_types is_aggregate result cc =
     (if row_count result = 0 then Inr (emit (Log LOG_ERROR) cc)
      else if is_aggregate
      then session_call (Session_metadata (Update_aggregates (cc_cassandra_version cc) result)) cc
      else session_call (Session_metadata (Update_functions (cc_cassandra_version cc) result)) cc)"

subsection \<open>Reconciling a host row\<close>

datatype update_host_type = ADD_HOST | UPDATE_HOST_AND_BUILD

text \<open>Sequencing for the functions that return a host with the state.\<close>

definition and_then_host ::
  "fault + (host \<times> control_connection) \<Rightarrow>
   (host \<Rightarrow> control_connection \<Rightarrow> fault + (host \<times> control_connection)) \<Rightarrow>
   fault + (host \<times> control_connection)" where
  "and_then_host r f = (case r of Inl e \<Rightarrow> Inl e | Inr (h, cc) \<Rightarrow> f h cc)"

definition with_host :: "host \<Rightarrow> fault + control_connection \<Rightarrow> fault + (host \<times> control_connection)" where
  "with_host h r = (case r of Inl e \<Rightarrow> Inl e | Inr cc \<Rightarrow> Inr (h, cc))"

text \<open>
  Modelled from the spec: \<open>Session::token_map_init\<close>, declared outside
  control_connection.cpp: it returns false when the token map has been initialised
  already.
\<close>

definition token_map_init :: "string \<Rightarrow> control_connection \<Rightarrow> fault + (bool \<times> control_connection)" where
  "token_map_init partitioner cc =
     (case cc_session cc of
        None \<Rightarrow> Inl Null_dereference
      | Some s \<Rightarrow>
          Inr (\<not> session_token_map_initialized s,
               emit (Session_token_map_init partitioner)
                 (cc\<lparr>cc_session := Some (s\<lparr>session_token_map_initialized := True\<rparr>)\<rparr>)))"

text \<open>
  \<open>update_node_info\<close> is modelled block by block, in the order of the source; each
  block takes the host and the state and returns them as it leaves them. The three
  strings are read from the row with \<open>get_string_by_name\<close> into empty strings.

  The first block: the listen address, from the peer column when the row has one.
\<close>

definition update_listen_address ::
  "row \<Rightarrow> host \<Rightarrow> control_connection \<Rightarrow> fault + (host \<times> control_connection)" where
  "update_listen_address row host cc =
     (case get_by_name row ''peer'' of
        None \<Rightarrow> Inr (host, cc)
      | Some v \<Rightarrow>
          (case cc_connection cc of
             None \<Rightarrow> Inl Null_dereference
           | Some c \<Rightarrow>
               (case as_inet v (address_port (connection_address c)) of
                  Some listen_address \<Rightarrow>
                    Inr (host\<lparr>host_listen_address := to_string listen_address\<rparr>, cc)
                | None \<Rightarrow> Inr (host, emit (Log LOG_WARN) cc))))"

text \<open>The second block: rack and data center, with the calls on the load-balancing policy.\<close>

definition update_rack_and_dc ::
  "row \<Rightarrow> host \<Rightarrow> control_connection \<Rightarrow> fault + (host \<times> control_connection)" where
  "update_rack_and_dc row host cc =
     (let rack = snd (get_string_by_name row ''rack'' []);
          dc = snd (get_string_by_name row ''data_center'' [])
      in
      if (rack \<noteq> [] \<and> rack \<noteq> host_rack host) \<or> (dc \<noteq> [] \<and> dc \<noteq> host_dc host) then
        and_then_host
          (with_host host
             (if \<not> host_was_just_added host
              then session_call (Session_load_balancing_policy_host_add_remove host False) cc
              else Inr cc)) (\<lambda>h c.
        and_then_host (Inr (h\<lparr>host_rack := rack, host_dc := dc\<rparr>, c)) (\<lambda>h c.
        with_host h
          (if \<not> host_was_just_added h
           then session_call (Session_load_balancing_policy_host_add_remove h True) c
           else Inr c)))
      else Inr (host, cc))"

text \<open>
  The third block: the release version. \<open>VersionNumber::parse\<close> is declared outside
  control_connection.cpp and is the parameter \<open>parse\<close>, \<open>None\<close> for a string it refuses.
\<close>

definition update_cassandra_version ::
  "(string \<Rightarrow> version_number option) \<Rightarrow> row \<Rightarrow> host \<Rightarrow> control_connection \<Rightarrow>
   fault + (host \<times> control_connection)" where
  "update_cassandra_version parse row host cc =
     (let release_version = snd (get_string_by_name row ''release_version'' []) in
      case parse release_version of
        Some cassandra_version \<Rightarrow> Inr (host\<lparr>host_cassandra_version := cassandra_version\<rparr>, cc)
      | None \<Rightarrow> Inr (host, emit (Log LOG_WARN) cc))"

text \<open>The fourth block: the partitioner and the tokens, with token-aware routing.\<close>

definition update_tokens ::
  "row \<Rightarrow> update_host_type \<Rightarrow> host \<Rightarrow> control_connection \<Rightarrow>
   fault + (host \<times> control_connection)" where
  "update_tokens row type host cc =
     (if cc_token_aware_routing cc then
        (let is_connected_host =
               (case cc_connection cc of
                  None \<Rightarrow> False
                | Some c \<Rightarrow> host_address host = connection_address c)
         in
         and_then_host
           (with_host host
              (if is_connected_host \<and> fst (get_string_by_name row ''partitioner'' []) then
                 (case token_map_init (snd (get_string_by_name row ''partitioner'' [])) cc of
                    Inl e \<Rightarrow> Inl e
                  | Inr (initialized, c) \<Rightarrow>
                      if \<not> initialized then Inr (emit (Log LOG_TRACE) c) else Inr c)
               else Inr cc)) (\<lambda>h c.
           with_host h
             (case get_by_name row ''tokens'' of
                None \<Rightarrow> Inr c
              | Some v \<Rightarrow>
                  if value_is_collection v then
                    (if type = UPDATE_HOST_AND_BUILD
                     then session_call (Session_token_map_host_update h v) c
                     else session_call (Session_token_map_host_add h v) c)
                  else Inr c)))
      else Inr (host, cc))"

definition update_node_info ::
  "(string \<Rightarrow> version_number option) \<Rightarrow> host \<Rightarrow> row \<Rightarrow> update_host_type \<Rightarrow>
   control_connection \<Rightarrow> fault + (host \<times> control_connection)" where
  "update_node_info parse host row type cc =
     and_then_host (update_listen_address row host cc) (\<lambda>h c.
     and_then_host (update_rack_and_dc row h c) (\<lambda>h c.
     and_then_host (update_cassandra_version parse row h c) (\<lambda>h c.
     update_tokens row type h c)))"


fun load_balancing_calls :: "action list \<Rightarrow> (host \<times> bool) list" where
  "load_balancing_calls [] = []"
| "load_balancing_calls (Session_load_balancing_policy_host_add_remove h b # as) =
     (h, b) # load_balancing_calls as"
| "load_balancing_calls (a # as) = load_balancing_calls as"

fun removes_from_session :: "action \<Rightarrow> bool" where
  "removes_from_session (Session_on_remove h) = True"
| "removes_from_session (Session_purge_hosts b) = True"
| "removes_from_session a = False"

subsection \<open>Refresh requests\<close>

text \<open>
  \<open>connection_->write_and_flush(callback)\<close> with a new callback, and the branch taken
  when it returns false: an error is logged and the connection is defuncted.
\<close>

definition write_or_defunct :: "request_callback \<Rightarrow> control_connection \<Rightarrow> fault + control_connection" where
  "write_or_defunct cb cc =
     and_then (new_callback cc) (\<lambda>cc1.
       case cc_connection cc1 of
         None \<Rightarrow> Inl Null_dereference
       | Some c \<Rightarrow>
           (let cc2 = emit (Connection_write_and_flush cb) cc1 in
            if \<not> connection_stream_available c
            then Inr (emit Connection_defunct (emit (Log LOG_ERROR) cc2))
            else Inr cc2))"

text \<open>
  \<open>refresh_node_info\<close>. The default value of \<open>query_tokens\<close> is in the header, outside
  control_connection.cpp: the callers that leave it out pass false.
\<close>

definition refresh_node_info ::
  "host \<Rightarrow> bool \<Rightarrow> bool \<Rightarrow> control_connection \<Rightarrow> fault + control_connection" where
  "refresh_node_info host is_new_node query_tokens cc =
     (case cc_connection cc of
        None \<Rightarrow> Inr cc
      | Some c \<Rightarrow>
          (let is_connected_host = (host_address host = connection_address c);
               token_query = (cc_token_aware_routing cc \<and>
                              (host_was_just_added host \<or> query_tokens));
               (query, callback) =
                 (if is_connected_host \<or> host_listen_address host \<noteq> [] then
                    (if is_connected_host
                     then (if token_query then SELECT_LOCAL_TOKENS else SELECT_LOCAL)
                     else (if token_query then SELECT_PEERS_TOKENS else SELECT_PEERS)
                          @ '' WHERE peer = '' @ quote @ host_listen_address host @ quote,
                     On_refresh_node_info)
                  else
                    (if token_query then SELECT_PEERS_TOKENS else SELECT_PEERS,
                     On_refresh_node_info_all))
           in write_or_defunct (RefreshNodeCallback host is_new_node query callback)
                (emit (Log LOG_DEBUG) cc)))"

definition refresh_keyspace :: "string \<Rightarrow> control_connection \<Rightarrow> fault + control_connection" where
  "refresh_keyspace keyspace_name cc =
     (let query =
            (if version_ge (cc_cassandra_version cc) (VersionNumber 3 0 0)
             then SELECT_KEYSPACES_30 else SELECT_KEYSPACES_20)
            @ '' WHERE keyspace_name='' @ quote @ keyspace_name @ quote
      in write_or_defunct (RefreshKeyspaceCallback keyspace_name query On_refresh_keyspace)
           (emit (Log LOG_DEBUG) cc))"

definition refresh_table_or_view ::
  "string \<Rightarrow> string \<Rightarrow> control_connection \<Rightarrow> fault + control_connection" where
  "refresh_table_or_view keyspace_name table_or_view_name cc =
     (let modern = version_ge (cc_cassandra_version cc) (VersionNumber 3 0 0);
          filter_by = (\<lambda>column.
            '' WHERE keyspace_name='' @ quote @ keyspace_name @ quote @ '' AND '' @ column @ ''=''
            @ quote @ table_or_view_name @ quote);
          table_query =
            (if modern then SELECT_TABLES_30 @ filter_by ''table_name''
             else SELECT_COLUMN_FAMILIES_20 @ filter_by ''columnfamily_name'');
          view_query = (if modern then SELECT_VIEWS_30 @ filter_by ''view_name'' else []);
          column_query =
            (if modern then SELECT_COLUMNS_30 @ filter_by ''table_name''
             else SELECT_COLUMNS_20 @ filter_by ''columnfamily_name'');
          index_query = (if modern then SELECT_INDEXES_30 @ filter_by ''table_name'' else []);
          chain = [(''tables'', table_query), (''columns'', column_query)]
                  @ (if view_query \<noteq> [] then [(''views'', view_query)] else [])
                  @ (if index_query \<noteq> [] then [(''indexes'', index_query)] else [])
      in
      and_then (new_callback (emit (Log LOG_DEBUG) cc)) (\<lambda>cc1.
        connection_call
          (Connection_write_and_flush
             (RefreshTableCallback keyspace_name table_or_view_name chain On_refresh_table_or_view))
          cc1))"

definition refresh_type :: "string \<Rightarrow> string \<Rightarrow> control_connection \<Rightarrow> fault + control_connection" where
  "refresh_type keyspace_name type_name cc =
     (let query =
            (if version_ge (cc_cassandra_version cc) (VersionNumber 3 0 0)
             then SELECT_USERTYPES_30 else SELECT_USERTYPES_21)
            @ '' WHERE keyspace_name='' @ quote @ keyspace_name @ quote @ '' AND type_name=''
            @ quote @ type_name @ quote
      in write_or_defunct (RefreshTypeCallback keyspace_name type_name query On_refresh_type)
           (emit (Log LOG_DEBUG) cc))"

definition refresh_function ::
  "string \<Rightarrow> string \<Rightarrow> string list \<Rightarrow> bool \<Rightarrow> control_connection \<Rightarrow> fault + control_connection" where
  "refresh_function keyspace_name function_name arg_types is_aggregate cc =
     (let query =
            (if version_ge (cc_cassandra_version cc) (VersionNumber 3 0 0) then
               (if is_aggregate
                then SELECT_AGGREGATES_30
                     @ '' WHERE keyspace_name=? AND aggregate_name=? AND argument_types=?''
                else SELECT_FUNCTIONS_30
                     @ '' WHERE keyspace_name=? AND function_name=? AND argument_types=?'')
             else
               (if is_aggregate
                then SELECT_AGGREGATES_22
                     @ '' WHERE keyspace_name=? AND aggregate_name=? AND signature=?''
                else SELECT_FUNCTIONS_22
                     @ '' WHERE keyspace_name=? AND function_name=? AND signature=?''));
          request = (query, [CassString keyspace_name, CassString function_name, Collection arg_types])
      in write_or_defunct
           (RefreshFunctionCallback keyspace_name function_name arg_types is_aggregate request
              On_refresh_function)
           (emit (Log LOG_DEBUG) cc))"

subsection \<open>Events\<close>

text \<open>
  Modelled from the spec: \<open>Session::get_host\<close> and \<open>Session::add_host\<close>, declared outside
  control_connection.cpp. \<open>get_host\<close> looks the address up in the host map; \<open>add_host\<close>
  puts a new host, marked as just added, into the map and returns it.
\<close>

definition get_host :: "address \<Rightarrow> control_connection \<Rightarrow> fault + host option" where
  "get_host a cc =
     (case cc_session cc of
        None \<Rightarrow> Inl Null_dereference
      | Some s \<Rightarrow> Inr (map_of (session_hosts s) a))"

definition add_host :: "address \<Rightarrow> bool \<Rightarrow> control_connection \<Rightarrow> fault + (host \<times> control_connection)" where
  "add_host a should_mark cc =
     (case cc_session cc of
        None \<Rightarrow> Inl Null_dereference
      | Some s \<Rightarrow>
          (let h = \<lparr>host_address = a, host_listen_address = [], host_dc = [], host_rack = [],
                    host_cassandra_version = VersionNumber 0 0 0, host_was_just_added = True,
                    host_is_up = False,
                    host_mark = (if should_mark then \<not> session_current_host_mark s
                                 else session_current_host_mark s)\<rparr>
           in Inr (h, emit (Session_add_host a should_mark)
                        (cc\<lparr>cc_session :=
                              Some (s\<lparr>session_hosts := AList.update a h (session_hosts s)\<rparr>)\<rparr>))))"

definition on_up :: "address \<Rightarrow> control_connection \<Rightarrow> fault + control_connection" where
  "on_up a cc =
     (case get_host a cc of
        Inl e \<Rightarrow> Inl e
      | Inr (Some host) \<Rightarrow>
          if host_is_up host then Inr cc
          else and_then (session_call (Session_on_up host) cc) (refresh_node_info host False False)
      | Inr None \<Rightarrow>
          (case add_host a False cc of
             Inl e \<Rightarrow> Inl e
           | Inr (host, cc1) \<Rightarrow> refresh_node_info host True False cc1))"

definition on_down :: "address \<Rightarrow> control_connection \<Rightarrow> fault + control_connection" where
  "on_down a cc =
     (case get_host a cc of
        Inl e \<Rightarrow> Inl e
      | Inr (Some host) \<Rightarrow>
          if \<not> host_is_up host then Inr cc
          else session_call (Session_on_down host) cc
      | Inr None \<Rightarrow> Inr (emit (Log LOG_DEBUG) cc))"

definition on_event_topology_change :: "event_response \<Rightarrow> control_connection \<Rightarrow> fault + control_connection" where
  "on_event_topology_change response cc =
     (case ev_topology_change response of
        NEW_NODE \<Rightarrow>
          (let cc1 = emit (Log LOG_INFO) cc in
           case get_host (ev_affected_node response) cc1 of
             Inl e \<Rightarrow> Inl e
           | Inr (Some host) \<Rightarrow> Inr cc1
           | Inr None \<Rightarrow>
               (case add_host (ev_affected_node response) True cc1 of
                  Inl e \<Rightarrow> Inl e
                | Inr (host, cc2) \<Rightarrow> refresh_node_info host True True cc2))
      | REMOVED_NODE \<Rightarrow>
          (let cc1 = emit (Log LOG_INFO) cc in
           case get_host (ev_affected_node response) cc1 of
             Inl e \<Rightarrow> Inl e
           | Inr (Some host) \<Rightarrow>
               and_then (session_call (Session_on_remove host) cc1)
                 (session_call (Session_token_map_host_remove (Some host)))
           | Inr None \<Rightarrow> Inr (emit (Log LOG_DEBUG) cc1))
      | MOVED_NODE \<Rightarrow>
          (let cc1 = emit (Log LOG_INFO) cc in
           case get_host (ev_affected_node response) cc1 of
             Inl e \<Rightarrow> Inl e
           | Inr (Some host) \<Rightarrow> refresh_node_info host False True cc1
           | Inr None \<Rightarrow>
               session_call (Session_token_map_host_remove None) (emit (Log LOG_DEBUG) cc1)))"

definition on_event_schema_change :: "event_response \<Rightarrow> control_connection \<Rightarrow> fault + control_connection" where
  "on_event_schema_change response cc =
     (if \<not> cc_use_schema cc \<and> ev_schema_change_target response \<noteq> KEYSPACE then Inr cc
      else
        (let cc1 = emit (Log LOG_DEBUG) cc in
         case ev_schema_change response of
           DROPPED \<Rightarrow>
             (case ev_schema_change_target response of
                KEYSPACE \<Rightarrow>
                  session_call (Session_metadata (Drop_keyspace (ev_keyspace response))) cc1
              | TABLE \<Rightarrow>
                  session_call (Session_metadata
                    (Drop_table_or_view (ev_keyspace response) (ev_target response))) cc1
              | USER_TYPE \<Rightarrow>
                  session_call (Session_metadata
                    (Drop_user_type (ev_keyspace response) (ev_target response))) cc1
              | FUNCTION \<Rightarrow>
                  session_call (Session_metadata
                    (Drop_function (ev_keyspace response)
                       (ev_target response, ev_arg_types response))) cc1
              | AGGREGATE \<Rightarrow>
                  session_call (Session_metadata
                    (Drop_aggregate (ev_keyspace response)
                       (ev_target response, ev_arg_types response))) cc1)
         | created_or_updated \<Rightarrow>
             (case ev_schema_change_target response of
                KEYSPACE \<Rightarrow> refresh_keyspace (ev_keyspace response) cc1
              | TABLE \<Rightarrow> refresh_table_or_view (ev_keyspace response) (ev_target response) cc1
              | USER_TYPE \<Rightarrow> refresh_type (ev_keyspace response) (ev_target response) cc1
              | function_or_aggregate \<Rightarrow>
                  refresh_function (ev_keyspace response) (ev_target response)
                    (ev_arg_types response)
                    (ev_schema_change_target response = AGGREGATE) cc1)))"

text \<open>
  \<open>on_event\<close>. The three cases of the outer switch are the functions above; the
  default case is \<open>assert(false)\<close>.
\<close>

definition on_event :: "event_response \<Rightarrow> control_connection \<Rightarrow> fault + control_connection" where
  "on_event response cc =
     (if cc_state cc \<noteq> CONTROL_STATE_READY then Inr cc
      else
        (case ev_event_type response of
           CASS_EVENT_TOPOLOGY_CHANGE \<Rightarrow> on_event_topology_change response cc
         | CASS_EVENT_STATUS_CHANGE \<Rightarrow>
             (case ev_status_change response of
                UP \<Rightarrow> on_up (ev_affected_node response) (emit (Log LOG_INFO) cc)
              | DOWN \<Rightarrow> on_down (ev_affected_node response) (emit (Log LOG_INFO) cc))
         | CASS_EVENT_SCHEMA_CHANGE \<Rightarrow> on_event_schema_change response cc
         | Other_event_type \<Rightarrow> Inl Assertion_failed))"

subsection \<open>Concrete inputs\<close>

text \<open>
  A cluster of three hosts and a control connection started on it, on which the
  theorems below are instantiated. The protocol constants are those of a driver whose
  DSE bit is \<open>0x40\<close> and whose highest supported Cassandra version is 4.
\<close>

definition example_constants :: protocol_constants where
  "example_constants =
     \<lparr>DSE_PROTOCOL_VERSION_BIT = 0x40, DSE_PROTOCOL_VERSION_MASK = 0x3F,
      CASS_HIGHEST_SUPPORTED_PROTOCOL_VERSION = 4\<rparr>"

definition example_address :: "string \<Rightarrow> address" where
  "example_address ip = \<lparr>address_ip = ip, address_port = 9042\<rparr>"

definition example_host :: "string \<Rightarrow> host" where
  "example_host ip =
     \<lparr>host_address = example_address ip, host_listen_address = [], host_dc = ''dc1'',
      host_rack = ''r1'', host_cassandra_version = VersionNumber 3 11 0,
      host_was_just_added = False, host_is_up = True, host_mark = False\<rparr>"

definition example_session :: "host list \<Rightarrow> session" where
  "example_session hs =
     \<lparr>session_hosts = map (\<lambda>h. (host_address h, h)) hs, session_random = Some 7,
      config_protocol_version = 4, config_use_schema = True,
      config_token_aware_routing = True, session_current_host_mark = False,
      session_new_query_plan = hs, session_token_map_initialized = False\<rparr>"

definition example_connection :: connection where
  "example_connection =
     \<lparr>connection_address = example_address ''10.0.0.1'', connection_stream_available = True\<rparr>"

definition example_control_connection :: "control_connection_state \<Rightarrow> control_connection" where
  "example_control_connection st =
     ControlConnection
       \<lparr>cc_state := st,
        cc_session := Some (example_session
          [example_host ''10.0.0.1'', example_host ''10.0.0.2'', example_host ''10.0.0.3'']),
        cc_connection := Some example_connection,
        cc_current_host := Some (example_host ''10.0.0.1''),
        cc_query_plan := Some (Session_plan []),
        cc_event_types := [CASS_EVENT_TOPOLOGY_CHANGE, CASS_EVENT_STATUS_CHANGE, CASS_EVENT_SCHEMA_CHANGE],
        cc_protocol_version := 4,
        cc_use_schema := True,
        cc_token_aware_routing := True,
        cc_cassandra_version := VersionNumber 3 11 0\<rparr>"

definition example_connector_invalid_protocol :: connector where
  "example_connector_invalid_protocol =
     \<lparr>connector_is_ok = False, connector_is_invalid_protocol = True,
      connector_is_auth_error = False, connector_is_ssl_error = False,
      connector_error_message = ''Invalid or unsupported protocol version'',
      connector_connection = example_connection\<rparr>"

definition example_row :: row where
  "example_row = [(''keyspace_name'', \<lparr>value_is_null = False, value_inet = None,
      value_is_collection = False, value_string = ''ks1''\<rparr>)]"

definition example_parse :: "string \<Rightarrow> version_number option" where
  "example_parse v = (if v = ''3.11.0'' then Some (VersionNumber 3 11 0) else None)"

definition example_text :: "string \<Rightarrow> value" where
  "example_text t = \<lparr>value_is_null = False, value_inet = None, value_is_collection = False,
     value_string = t\<rparr>"

definition example_peers_row :: "string \<Rightarrow> row" where
  "example_peers_row rack =
     [(''data_center'', example_text ''dc1''), (''rack'', example_text rack),
      (''release_version'', example_text ''3.11.0'')]"

section \<open>Properties of the startup query plan\<close>

lemma compute_next_n_steps:
  assumes "plan_count p + k \<le> length (plan_hosts p)" and "plan_index p < length (plan_hosts p)"
    and "length (plan_hosts p) \<le> 2 ^ 63"
  shows "compute_next_n k p =
     Inr (map (\<lambda>j. Some (plan_hosts p ! ((plan_index p + plan_count p + j) mod length (plan_hosts p)))) [0..<k],
          p\<lparr>plan_count := plan_count p + k\<rparr>)"
  using assms
proof (induction k arbitrary: p)
  case 0
  then show ?case by simp
next
  case (Suc k)
  let ?n = "length (plan_hosts p)"
  let ?p' = "p\<lparr>plan_count := plan_count p + 1\<rparr>"
  have lt: "plan_count p < ?n" using Suc.prems by simp
  have small: "plan_index p + plan_count p < size_t_mod" "plan_count p + 1 < size_t_mod"
    using Suc.prems lt by (simp_all add: size_t_mod_def)
  have step: "compute_next p =
      Inr (Some (plan_hosts p ! ((plan_index p + plan_count p) mod ?n)), ?p')"
  proof -
    have ne: "plan_hosts p \<noteq> []" using lt by auto
    show ?thesis using lt small ne by (simp add: compute_next_def Let_def)
  qed
  have rest: "compute_next_n k ?p' =
      Inr (map (\<lambda>j. Some (plan_hosts ?p' ! ((plan_index ?p' + plan_count ?p' + j) mod length (plan_hosts ?p')))) [0..<k],
           ?p'\<lparr>plan_count := plan_count ?p' + k\<rparr>)"
    by (rule Suc.IH) (use Suc.prems in simp_all)
  have shift: "map (\<lambda>j. Some (plan_hosts p ! ((plan_index p + plan_count p + j) mod ?n))) [0..<Suc k] =
      Some (plan_hosts p ! ((plan_index p + plan_count p) mod ?n)) #
      map (\<lambda>j. Some (plan_hosts p ! ((plan_index p + (plan_count p + 1) + j) mod ?n))) [0..<k]"
    by (simp add: upt_conv_Cons map_Suc_upt [symmetric] add.assoc del: upt_Suc)
  show ?case
    using step rest shift by (simp add: add.assoc)
qed

lemma compute_next_n_exhausted:
  "length (plan_hosts p) \<le> plan_count p \<Longrightarrow> compute_next_n m p = Inr (replicate m None, p)"
  by (induction m) (simp_all add: compute_next_def)

lemma compute_next_n_add:
  "compute_next_n (a + b) p =
     (case compute_next_n a p of
        Inl e \<Rightarrow> Inl e
      | Inr (hs, p') \<Rightarrow>
          (case compute_next_n b p' of
             Inl e \<Rightarrow> Inl e
           | Inr (hs', p'') \<Rightarrow> Inr (hs @ hs', p'')))"
  by (induction a arbitrary: p) (auto split: sum.splits prod.splits)

lemma rotate_as_nth_map:
  assumes "xs \<noteq> []"
  shows "map (\<lambda>j. Some (xs ! ((s + j) mod length xs))) [0..<length xs] = map Some (rotate s xs)"
  by (rule nth_equalityI) (use assms in \<open>simp_all add: nth_rotate add.commute\<close>)

lemma mset_rotate_eq: "mset (rotate s xs) = mset xs"
proof (induction s)
  case 0
  then show ?case by simp
next
  case (Suc s)
  then show ?case by (cases "rotate s xs") simp_all
qed

lemma startup_plan_run_eq:
  assumes "hosts \<noteq> []" and "length hosts \<le> 2 ^ 63"
  shows "startup_plan_run hosts random (length hosts + m) =
     Inr (map Some (rotate (case random of None \<Rightarrow> 0 | Some r \<Rightarrow> r mod length hosts) (map snd hosts))
          @ replicate m None)"
proof -
  let ?n = "length hosts"
  let ?s = "case random of None \<Rightarrow> 0 | Some r \<Rightarrow> r mod ?n"
  let ?p = "\<lparr>plan_hosts = map snd hosts, plan_index = ?s, plan_count = 0\<rparr>"
  have pos: "0 < ?n" using assms(1) by simp
  have build: "ControlStartupQueryPlan hosts random = Inr ?p"
    using pos by (cases random) (simp_all add: ControlStartupQueryPlan_def random_next_def max_def Suc_le_eq)
  have idx: "plan_index ?p < length (plan_hosts ?p)"
    using pos by (cases random) simp_all
  have first: "compute_next_n ?n ?p =
      Inr (map (\<lambda>j. Some (plan_hosts ?p ! ((plan_index ?p + plan_count ?p + j) mod length (plan_hosts ?p)))) [0..<?n],
           ?p\<lparr>plan_count := plan_count ?p + ?n\<rparr>)"
    by (rule compute_next_n_steps) (use idx assms(2) in simp_all)
  have ys: "map (\<lambda>j. Some (plan_hosts ?p ! ((plan_index ?p + plan_count ?p + j) mod length (plan_hosts ?p)))) [0..<?n]
      = map Some (rotate ?s (map snd hosts))"
    using rotate_as_nth_map [of "map snd hosts" ?s] assms(1) by simp
  have rest: "compute_next_n m (?p\<lparr>plan_count := plan_count ?p + ?n\<rparr>) =
      Inr (replicate m None, ?p\<lparr>plan_count := plan_count ?p + ?n\<rparr>)"
    by (rule compute_next_n_exhausted) simp
  have first': "compute_next_n ?n ?p =
      Inr (map Some (rotate ?s (map snd hosts)), ?p\<lparr>plan_count := plan_count ?p + ?n\<rparr>)"
    using first ys by simp
  have "compute_next_n (?n + m) ?p =
      Inr (map Some (rotate ?s (map snd hosts)) @ replicate m None,
           ?p\<lparr>plan_count := plan_count ?p + ?n\<rparr>)"
    by (simp only: compute_next_n_add first' rest sum.case prod.case)
  then show ?thesis
    by (simp add: startup_plan_run_def build)
qed

text \<open>
  C3. For a non-empty host map of \<open>n\<close> hosts and any random value (or no generator at
  all), the first \<open>n\<close> calls of \<open>compute_next\<close> on the startup plan return the hosts of
  the map, each once, in cyclic order from position (random value mod \<open>n\<close>), and every
  later call returns no host. The number of hosts is at most \<open>2 ^ 63\<close>, so that the
  \<open>size_t\<close> additions do not wrap.
\<close>

theorem startup_plan_covers_each_host_once:
  assumes "hosts \<noteq> []" and "length hosts \<le> 2 ^ 63"
  shows "startup_plan_run hosts random (length hosts + m) =
           Inr (map Some (rotate (case random of None \<Rightarrow> 0 | Some r \<Rightarrow> r mod length hosts)
                            (map snd hosts)) @ replicate m None)
         \<and> mset (rotate (case random of None \<Rightarrow> 0 | Some r \<Rightarrow> r mod length hosts) (map snd hosts))
             = mset (map snd hosts)
         \<and> length (rotate (case random of None \<Rightarrow> 0 | Some r \<Rightarrow> r mod length hosts) (map snd hosts))
             = length hosts"
  using startup_plan_run_eq [OF assms] by (simp add: mset_rotate_eq)

theorem startup_plan_covers_each_host_once_witness:
  "startup_plan_run [(10::nat, ''A''), (20, ''B''), (30, ''C'')] (Some 7)
     (length [(10::nat, ''A''), (20, ''B''), (30, ''C'')] + 2) =
     Inr [Some ''B'', Some ''C'', Some ''A'', None, None]"
proof -
  have ne: "[(10::nat, ''A''), (20, ''B''), (30, ''C'')] \<noteq> []" by simp
  have le: "length [(10::nat, ''A''), (20, ''B''), (30, ''C'')] \<le> 2 ^ 63" by simp
  have rhs: "map Some (rotate (case Some 7 of None \<Rightarrow> 0
                 | Some r \<Rightarrow> r mod length [(10::nat, ''A''), (20, ''B''), (30, ''C'')])
               (map snd [(10::nat, ''A''), (20, ''B''), (30, ''C'')])) @ replicate 2 None
             = [Some ''B'', Some ''C'', Some ''A'', None, None]"
    by code_simp
  show ?thesis
    using startup_plan_covers_each_host_once [OF ne le, of "Some 7" 2, THEN conjunct1]
    by (simp only: rhs)
qed

section \<open>Properties of connecting and reconnecting\<close>

lemmas example_defs = example_constants_def example_address_def example_host_def example_session_def
  example_connection_def example_control_connection_def example_connector_invalid_protocol_def
  ControlConnection_def VersionNumber_def

lemma example_session_is:
  "cc_session (example_control_connection st) = Some (example_session
          [example_host ''10.0.0.1'', example_host ''10.0.0.2'', example_host ''10.0.0.3''])"
  by (simp add: example_control_connection_def)

lemma example_connection_is:
  "cc_connection (example_control_connection st) = Some example_connection"
  by (simp add: example_control_connection_def)

lemma reconnect_retry_current_host:
  assumes "cc_state cc \<noteq> CONTROL_STATE_CLOSED"
    and "cc_session cc = Some s" and "cc_current_host cc = Some h"
  shows "reconnect True cc =
     Inr (cc\<lparr>cc_trace := cc_trace cc
                 @ (case cc_connection cc of None \<Rightarrow> [] | Some c \<Rightarrow> [Connection_close])
                 @ [Connector_connect (host_address h) (cc_protocol_version cc) (cc_event_types cc)]\<rparr>)"
  using assms
  by (cases "cc_connection cc")
     (simp_all add: reconnect_def reconnect_connector_def session_call_def emit_def)

text \<open>
  C1. A connector fails with an invalid-protocol error while the state is NEW, on the
  current host \<open>h\<close>. With a protocol version \<open>v > 1\<close>, the version becomes \<open>v - 1\<close> if the
  DSE bit of \<open>v\<close> is set and its DSE subversion is above 1, the highest supported
  Cassandra version if the DSE bit is set and the subversion is at most 1, and \<open>v - 1\<close>
  otherwise; a connector is then started on the address of the same host with the new
  version, and the query plan and the current host are as before. With \<open>v \<le> 1\<close>, the
  session is told \<open>UNABLE_TO_DETERMINE_PROTOCOL\<close> and nothing else is done: no connector
  is started.
\<close>

theorem invalid_protocol_steps_down_on_same_host:
  assumes "cc_state cc = CONTROL_STATE_NEW"
    and "\<not> connector_is_ok connector" and "connector_is_invalid_protocol connector"
    and "cc_session cc = Some s" and "cc_current_host cc = Some h"
  shows "handle_connect K connector cc =
     Inr (if cc_protocol_version cc > 1 then
            cc\<lparr>cc_protocol_version :=
                   (if cc_protocol_version cc AND DSE_PROTOCOL_VERSION_BIT K \<noteq> 0 \<and>
                       cc_protocol_version cc AND DSE_PROTOCOL_VERSION_MASK K > 1
                    then cc_protocol_version cc - 1
                    else if cc_protocol_version cc AND DSE_PROTOCOL_VERSION_BIT K \<noteq> 0
                    then CASS_HIGHEST_SUPPORTED_PROTOCOL_VERSION K
                    else cc_protocol_version cc - 1),
               cc_trace := cc_trace cc @ [Log LOG_WARN]
                 @ (case cc_connection cc of None \<Rightarrow> [] | Some c \<Rightarrow> [Connection_close])
                 @ [Connector_connect (host_address h)
                      (if cc_protocol_version cc AND DSE_PROTOCOL_VERSION_BIT K \<noteq> 0 \<and>
                          cc_protocol_version cc AND DSE_PROTOCOL_VERSION_MASK K > 1
                       then cc_protocol_version cc - 1
                       else if cc_protocol_version cc AND DSE_PROTOCOL_VERSION_BIT K \<noteq> 0
                       then CASS_HIGHEST_SUPPORTED_PROTOCOL_VERSION K
                       else cc_protocol_version cc - 1)
                      (cc_event_types cc)]\<rparr>
          else
            cc\<lparr>cc_trace := cc_trace cc @
                 [Log LOG_ERROR,
                  Session_on_control_connection_error CASS_ERROR_LIB_UNABLE_TO_DETERMINE_PROTOCOL
                    ''Not even protocol version 1 is supported'']\<rparr>)"
proof (cases "cc_protocol_version cc > 1")
  case False
  then show ?thesis
    using assms
    by (simp add: handle_connect_def handle_connect_new_def session_call_def emit_def)
next
  case True
  let ?nv = "next_protocol_version K (cc_protocol_version cc)"
  let ?cc1 = "emit (Log LOG_WARN) (cc\<lparr>cc_protocol_version := ?nv\<rparr>)"
  have nv: "?nv =
      (if cc_protocol_version cc AND DSE_PROTOCOL_VERSION_BIT K \<noteq> 0 \<and>
          cc_protocol_version cc AND DSE_PROTOCOL_VERSION_MASK K > 1
       then cc_protocol_version cc - 1
       else if cc_protocol_version cc AND DSE_PROTOCOL_VERSION_BIT K \<noteq> 0
       then CASS_HIGHEST_SUPPORTED_PROTOCOL_VERSION K
       else cc_protocol_version cc - 1)"
    by (simp add: next_protocol_version_def Let_def)
  have new: "handle_connect_new K connector cc = Inr (Inr (?cc1, True))"
    using assms True by (simp add: handle_connect_new_def)
  have hc: "handle_connect K connector cc = reconnect True ?cc1"
    using assms new by (simp add: handle_connect_def emit_def)
  have rc: "reconnect True ?cc1 =
      Inr (?cc1\<lparr>cc_trace := cc_trace ?cc1
                  @ (case cc_connection ?cc1 of None \<Rightarrow> [] | Some c \<Rightarrow> [Connection_close])
                  @ [Connector_connect (host_address h) (cc_protocol_version ?cc1)
                       (cc_event_types ?cc1)]\<rparr>)"
    by (rule reconnect_retry_current_host [where s = s]) (use assms in \<open>simp_all add: emit_def\<close>)
  show ?thesis
    unfolding hc rc using True by (simp add: emit_def nv [symmetric])
qed

theorem invalid_protocol_steps_down_on_same_host_witness:
  "handle_connect example_constants example_connector_invalid_protocol
     ((example_control_connection CONTROL_STATE_NEW)\<lparr>cc_protocol_version := 0x41, cc_connection := None\<rparr>) =
   Inr ((example_control_connection CONTROL_STATE_NEW)
          \<lparr>cc_protocol_version := 4, cc_connection := None,
           cc_trace := [Log LOG_WARN,
             Connector_connect (example_address ''10.0.0.1'') 4
               [CASS_EVENT_TOPOLOGY_CHANGE, CASS_EVENT_STATUS_CHANGE, CASS_EVENT_SCHEMA_CHANGE]]\<rparr>)"
proof -
  let ?cc = "(example_control_connection CONTROL_STATE_NEW)\<lparr>cc_protocol_version := 0x41, cc_connection := None\<rparr>"
  have h1: "cc_state ?cc = CONTROL_STATE_NEW" by (simp add: example_defs)
  have h2: "\<not> connector_is_ok example_connector_invalid_protocol" by (simp add: example_defs)
  have h3: "connector_is_invalid_protocol example_connector_invalid_protocol" by (simp add: example_defs)
  have h4: "cc_session ?cc = Some (example_session
          [example_host ''10.0.0.1'', example_host ''10.0.0.2'', example_host ''10.0.0.3''])"
    by (simp add: example_control_connection_def)
  have h5: "cc_current_host ?cc = Some (example_host ''10.0.0.1'')"
    by (simp add: example_control_connection_def)
  show ?thesis
    using invalid_protocol_steps_down_on_same_host [OF h1 h2 h3 h4 h5, of example_constants]
    by (simp add: example_defs)
qed

text \<open>
  C6. The query plan is exhausted and the state is not CLOSED. In the state READY the
  reconnect timer is started with 1000 ms and the session is told nothing; otherwise
  (the state is NEW) the session is told \<open>NO_HOSTS_AVAILABLE\<close>. In both cases nothing
  else is done: no connector is started.
\<close>

theorem exhausted_plan_defers_or_reports:
  assumes "cc_state cc \<noteq> CONTROL_STATE_CLOSED"
    and "cc_query_plan cc = Some qp" and "query_plan_compute_next qp = Inr (None, qp')"
    and "cc_session cc = Some s"
  shows "reconnect False cc =
     Inr (if cc_state cc = CONTROL_STATE_READY then
            cc\<lparr>cc_query_plan := Some qp', cc_current_host := None,
               cc_trace := cc_trace cc @ [Reconnect_timer_start 1000]\<rparr>
          else
            cc\<lparr>cc_query_plan := Some qp', cc_current_host := None,
               cc_trace := cc_trace cc @
                 [Session_on_control_connection_error CASS_ERROR_LIB_NO_HOSTS_AVAILABLE
                    ''No hosts available for the control connection'']\<rparr>)"
  using assms
  by (simp add: reconnect_def schedule_reconnect_def session_call_def emit_def)

theorem exhausted_plan_defers_or_reports_witness:
  "reconnect False (example_control_connection CONTROL_STATE_READY) =
     Inr ((example_control_connection CONTROL_STATE_READY)
            \<lparr>cc_current_host := None, cc_trace := [Reconnect_timer_start 1000]\<rparr>)"
proof -
  let ?cc = "example_control_connection CONTROL_STATE_READY"
  have h1: "cc_state ?cc \<noteq> CONTROL_STATE_CLOSED" by (simp add: example_defs)
  have h2: "cc_query_plan ?cc = Some (Session_plan [])" by (simp add: example_defs)
  have h3: "query_plan_compute_next (Session_plan []) = Inr (None, Session_plan [])"
    by (simp add: query_plan_compute_next_def)
  have h4: "cc_session ?cc = Some (example_session
          [example_host ''10.0.0.1'', example_host ''10.0.0.2'', example_host ''10.0.0.3''])"
    by (simp add: example_control_connection_def)
  show ?thesis
    using exhausted_plan_defers_or_reports [OF h1 h2 h3 h4]
    by (simp add: example_defs)
qed

text \<open>
  C10. The constructor of the startup plan never faults, whatever the host map: the
  bound handed to the random generator is \<open>max 1 (number of hosts)\<close>, which is not zero.
  On the plan of an empty host map every call of \<open>compute_next\<close>, the first one
  included, returns no host. So \<open>connect\<close> with a session whose host map is empty, in
  the state NEW, tells the session \<open>NO_HOSTS_AVAILABLE\<close> and does nothing else.
\<close>

theorem empty_host_map_reports_no_hosts:
  "(\<exists>p. ControlStartupQueryPlan hosts random = Inr p \<and>
        plan_index p = (case random of None \<Rightarrow> 0 | Some r \<Rightarrow> r mod max 1 (length hosts)))
   \<and> startup_plan_run ([] :: ('a \<times> 'h) list) random (Suc m) = Inr (replicate (Suc m) None)
   \<and> (session_hosts s = [] \<and> cc_state cc = CONTROL_STATE_NEW \<longrightarrow>
        (\<exists>cc'. connect K s cc = Inr cc' \<and>
           cc_trace cc' = cc_trace cc @
             [Session_on_control_connection_error CASS_ERROR_LIB_NO_HOSTS_AVAILABLE
                ''No hosts available for the control connection''] \<and>
           cc_current_host cc' = None \<and> cc_connection cc' = cc_connection cc \<and>
           cc_state cc' = CONTROL_STATE_NEW))"
proof (intro conjI impI)
  show "\<exists>p. ControlStartupQueryPlan hosts random = Inr p \<and>
        plan_index p = (case random of None \<Rightarrow> 0 | Some r \<Rightarrow> r mod max 1 (length hosts))"
    by (cases random) (simp_all add: ControlStartupQueryPlan_def random_next_def)
next
  have "ControlStartupQueryPlan ([] :: ('a \<times> 'h) list) random =
      Inr \<lparr>plan_hosts = [], plan_index = 0, plan_count = 0\<rparr>"
    by (cases random) (simp_all add: ControlStartupQueryPlan_def random_next_def)
  moreover have "compute_next_n (Suc m) \<lparr>plan_hosts = ([] :: 'h list), plan_index = 0, plan_count = 0\<rparr> =
      Inr (replicate (Suc m) None, \<lparr>plan_hosts = [], plan_index = 0, plan_count = 0\<rparr>)"
    by (rule compute_next_n_exhausted) simp
  ultimately show "startup_plan_run ([] :: ('a \<times> 'h) list) random (Suc m) = Inr (replicate (Suc m) None)"
    by (simp only: startup_plan_run_def sum.case prod.case)
next
  assume a: "session_hosts s = [] \<and> cc_state cc = CONTROL_STATE_NEW"
  have plan: "ControlStartupQueryPlan ([] :: (address \<times> host) list) (session_random s) =
      Inr \<lparr>plan_hosts = [], plan_index = 0, plan_count = 0\<rparr>"
    by (cases "session_random s") (simp_all add: ControlStartupQueryPlan_def random_next_def)
  have nxt: "query_plan_compute_next (Startup_plan \<lparr>plan_hosts = [], plan_index = 0, plan_count = 0\<rparr>) =
      Inr (None, Startup_plan \<lparr>plan_hosts = [], plan_index = 0, plan_count = 0\<rparr>)"
    by (simp add: query_plan_compute_next_def compute_next_def)
  show "\<exists>cc'. connect K s cc = Inr cc' \<and>
           cc_trace cc' = cc_trace cc @
             [Session_on_control_connection_error CASS_ERROR_LIB_NO_HOSTS_AVAILABLE
                ''No hosts available for the control connection''] \<and>
           cc_current_host cc' = None \<and> cc_connection cc' = cc_connection cc \<and>
           cc_state cc' = CONTROL_STATE_NEW"
    using a
    by (simp add: connect_def plan Let_def reconnect_def nxt session_call_def emit_def)
qed

theorem empty_host_map_reports_no_hosts_witness:
  "\<exists>cc'. connect example_constants (example_session []) ControlConnection = Inr cc' \<and>
      cc_trace cc' = [Session_on_control_connection_error CASS_ERROR_LIB_NO_HOSTS_AVAILABLE
                ''No hosts available for the control connection''] \<and>
      cc_current_host cc' = None"
proof -
  have h: "session_hosts (example_session []) = [] \<and> cc_state ControlConnection = CONTROL_STATE_NEW"
    by (simp add: example_session_def ControlConnection_def)
  have t: "cc_trace ControlConnection = []"
    by (simp add: ControlConnection_def)
  show ?thesis
    using empty_host_map_reports_no_hosts
      [of "[] :: (address \<times> host) list" None 0 "example_session []" ControlConnection example_constants,
       THEN conjunct2, THEN conjunct2, rule_format, OF h]
    unfolding t by auto
qed

section \<open>Properties of the address resolver\<close>

text \<open>
  C2. On a peers row with the peer value \<open>P\<close> and the rpc_address value \<open>R\<close>, read over a
  connection to \<open>A\<close>, the resolver returns what the six rules of the spec give, applied
  in their order: a row is rejected when \<open>P\<close> does not decode, when \<open>R\<close> is null, when
  \<open>R\<close> does not decode, or when the decoded \<open>R\<close> or \<open>P\<close> is \<open>A\<close>; otherwise the address
  is the decoded \<open>P\<close> when the decoded \<open>R\<close> is a wildcard, and the decoded \<open>R\<close> if not.
  The rejection for a null \<open>R\<close> logs one warning.
\<close>

theorem resolver_follows_the_rules_in_order:
  "(case determine_address_for_peer_host A (Some P) (Some R) of
      Inl e \<Rightarrow> Inl e
    | Inr (logged, output) \<Rightarrow> Inr output)
     = Inr (case resolve_peer_address A P R of Inl reason \<Rightarrow> None | Inr a \<Rightarrow> Some a)
   \<and> (resolve_peer_address A P R = Inl No_rpc_address \<longrightarrow>
        determine_address_for_peer_host A (Some P) (Some R) = Inr ([LOG_WARN], None))"
  by (auto simp add: determine_address_for_peer_host_def resolve_peer_address_def compare_def
        BIND_ANY_IPV4_def BIND_ANY_IPV6_def
      split: option.splits if_splits)

theorem resolver_follows_the_rules_in_order_witness:
  "determine_address_for_peer_host (example_address ''10.0.0.1'')
     (Some \<lparr>value_is_null = False, value_inet = Some ''10.0.0.2'', value_is_collection = False,
            value_string = []\<rparr>)
     (Some \<lparr>value_is_null = True, value_inet = None, value_is_collection = False,
            value_string = []\<rparr>)
   = Inr ([LOG_WARN], None)"
proof -
  have h: "resolve_peer_address (example_address ''10.0.0.1'')
     \<lparr>value_is_null = False, value_inet = Some ''10.0.0.2'', value_is_collection = False,
       value_string = []\<rparr>
     \<lparr>value_is_null = True, value_inet = None, value_is_collection = False,
       value_string = []\<rparr> = Inl No_rpc_address"
    by (simp add: resolve_peer_address_def as_inet_def)
  show ?thesis
    using resolver_follows_the_rules_in_order [THEN conjunct2, rule_format, OF h] .
qed

lemma resolver_wildcard_example:
  "determine_address_for_peer_host (example_address ''10.0.0.1'')
     (Some \<lparr>value_is_null = False, value_inet = Some ''10.0.0.2'', value_is_collection = False,
            value_string = []\<rparr>)
     (Some \<lparr>value_is_null = False, value_inet = Some ''0.0.0.0'', value_is_collection = False,
            value_string = []\<rparr>)
   = Inr ([LOG_WARN], Some (example_address ''10.0.0.2''))"
  by (simp add: determine_address_for_peer_host_def as_inet_def example_address_def compare_def
        BIND_ANY_IPV4_def BIND_ANY_IPV6_def)

lemma resolver_self_entry_example:
  "determine_address_for_peer_host (example_address ''10.0.0.1'')
     (Some \<lparr>value_is_null = False, value_inet = Some ''10.0.0.2'', value_is_collection = False,
            value_string = []\<rparr>)
     (Some \<lparr>value_is_null = False, value_inet = Some ''10.0.0.1'', value_is_collection = False,
            value_string = []\<rparr>)
   = Inr ([LOG_DEBUG], None)"
  by (simp add: determine_address_for_peer_host_def as_inet_def example_address_def)

section \<open>Properties of the schema refreshes\<close>

lemma session_call_Some:
  "cc_session cc = Some s \<Longrightarrow> session_call a cc = Inr (cc\<lparr>cc_trace := cc_trace cc @ [a]\<rparr>)"
  by (simp add: session_call_def emit_def)

lemma connection_call_Some:
  "cc_connection cc = Some c \<Longrightarrow> connection_call a cc = Inr (cc\<lparr>cc_trace := cc_trace cc @ [a]\<rparr>)"
  by (simp add: connection_call_def emit_def)

lemma and_then_Inr: "and_then (Inr cc) f = f cc"
  by (simp add: and_then_def)

lemma and_then_Inl: "and_then (Inl e) f = Inl e"
  by (simp add: and_then_def)

lemma version_ge_zero: "version_ge V (VersionNumber 0 0 0)"
  by (auto simp add: version_ge_def VersionNumber_def)

lemma version_ge_3_implies:
  "version_ge V (VersionNumber 3 0 0) \<Longrightarrow> version_ge V (VersionNumber 2 1 0) \<and> version_ge V (VersionNumber 2 2 0)"
  by (auto simp add: version_ge_def VersionNumber_def)

lemmas select_defs = SELECT_KEYSPACES_20_def SELECT_COLUMN_FAMILIES_20_def SELECT_COLUMNS_20_def
  SELECT_USERTYPES_21_def SELECT_FUNCTIONS_22_def SELECT_AGGREGATES_22_def
  SELECT_KEYSPACES_30_def SELECT_TABLES_30_def SELECT_VIEWS_30_def SELECT_COLUMNS_30_def
  SELECT_INDEXES_30_def SELECT_USERTYPES_30_def SELECT_FUNCTIONS_30_def SELECT_AGGREGATES_30_def

lemma query_meta_schema_chain_gated:
  "query_meta_schema_chain cc = gated_schema_chain (cc_use_schema cc) (cc_cassandra_version cc)"
proof (cases "version_ge (cc_cassandra_version cc) (VersionNumber 3 0 0)")
  case True
  then show ?thesis
    using version_ge_3_implies [OF True]
    by (simp add: query_meta_schema_chain_def gated_schema_chain_def logical_tables_def
        map_filter_simps version_ge_zero select_defs)
next
  case False
  then show ?thesis
    by (simp add: query_meta_schema_chain_def gated_schema_chain_def logical_tables_def
        map_filter_simps version_ge_zero select_defs)
qed

text \<open>
  C7. \<open>query_meta_schema\<close> issues nothing when neither schema tracking nor token-aware
  routing is enabled. Otherwise it writes one chained request whose queries are those
  of the spec's table for the server version: the keyspaces query always; with schema
  tracking, on a server from 3.0.0 on, the modern tables, views, columns, indexes, user
  types, functions and aggregates queries; with schema tracking on an older server, the
  legacy tables and columns queries, the legacy user types query from 2.1.0 on and the
  legacy functions and aggregates queries from 2.2.0 on. On the legacy layout no views
  query and no indexes query is in the chain.
\<close>

theorem bulk_schema_read_follows_version_gates:
  assumes "cc_session cc = Some s" and "cc_connection cc = Some c"
  shows "query_meta_schema cc =
     Inr (if cc_use_schema cc \<or> cc_token_aware_routing cc then
            cc\<lparr>cc_trace := cc_trace cc @
               [Uv_update_time,
                Connection_write_and_flush
                  (ChainedControlRequestCallback
                     (gated_schema_chain (cc_use_schema cc) (cc_cassandra_version cc))
                     On_query_meta_schema)]\<rparr>
          else cc)
     \<and> (''keyspaces'', if version_ge (cc_cassandra_version cc) (VersionNumber 3 0 0)
                        then SELECT_KEYSPACES_30 else SELECT_KEYSPACES_20)
         \<in> set (gated_schema_chain (cc_use_schema cc) (cc_cassandra_version cc))
     \<and> (\<not> version_ge (cc_cassandra_version cc) (VersionNumber 3 0 0) \<longrightarrow>
          ''views'' \<notin> fst ` set (gated_schema_chain (cc_use_schema cc) (cc_cassandra_version cc)) \<and>
          ''indexes'' \<notin> fst ` set (gated_schema_chain (cc_use_schema cc) (cc_cassandra_version cc)))"
proof (intro conjI impI)
  show "query_meta_schema cc =
     Inr (if cc_use_schema cc \<or> cc_token_aware_routing cc then
            cc\<lparr>cc_trace := cc_trace cc @
               [Uv_update_time,
                Connection_write_and_flush
                  (ChainedControlRequestCallback
                     (gated_schema_chain (cc_use_schema cc) (cc_cassandra_version cc))
                     On_query_meta_schema)]\<rparr>
          else cc)"
    using assms
    by (simp add: query_meta_schema_def new_callback_def session_call_Some connection_call_Some
        and_then_Inr query_meta_schema_chain_gated)
next
  show "(''keyspaces'', if version_ge (cc_cassandra_version cc) (VersionNumber 3 0 0)
                        then SELECT_KEYSPACES_30 else SELECT_KEYSPACES_20)
         \<in> set (gated_schema_chain (cc_use_schema cc) (cc_cassandra_version cc))"
    unfolding query_meta_schema_chain_gated [symmetric]
    by (simp add: query_meta_schema_chain_def)
next
  assume "\<not> version_ge (cc_cassandra_version cc) (VersionNumber 3 0 0)"
  then show "''views'' \<notin> fst ` set (gated_schema_chain (cc_use_schema cc) (cc_cassandra_version cc))"
    unfolding query_meta_schema_chain_gated [symmetric]
    by (auto simp add: query_meta_schema_chain_def)
next
  assume "\<not> version_ge (cc_cassandra_version cc) (VersionNumber 3 0 0)"
  then show "''indexes'' \<notin> fst ` set (gated_schema_chain (cc_use_schema cc) (cc_cassandra_version cc))"
    unfolding query_meta_schema_chain_gated [symmetric]
    by (auto simp add: query_meta_schema_chain_def)
qed

theorem bulk_schema_read_follows_version_gates_witness:
  "query_meta_schema (example_control_connection CONTROL_STATE_NEW) =
     Inr ((example_control_connection CONTROL_STATE_NEW)
       \<lparr>cc_trace := [Uv_update_time,
          Connection_write_and_flush
            (ChainedControlRequestCallback
               [(''keyspaces'', ''SELECT * FROM system_schema.keyspaces''),
                (''tables'', ''SELECT * FROM system_schema.tables''),
                (''views'', ''SELECT * FROM system_schema.views''),
                (''columns'', ''SELECT * FROM system_schema.columns''),
                (''indexes'', ''SELECT * FROM system_schema.indexes''),
                (''user_types'', ''SELECT * FROM system_schema.types''),
                (''functions'', ''SELECT * FROM system_schema.functions''),
                (''aggregates'', ''SELECT * FROM system_schema.aggregates'')]
               On_query_meta_schema)]\<rparr>)"
proof -
  have chain: "gated_schema_chain True (VersionNumber 3 11 0) =
      [(''keyspaces'', ''SELECT * FROM system_schema.keyspaces''),
       (''tables'', ''SELECT * FROM system_schema.tables''),
       (''views'', ''SELECT * FROM system_schema.views''),
       (''columns'', ''SELECT * FROM system_schema.columns''),
       (''indexes'', ''SELECT * FROM system_schema.indexes''),
       (''user_types'', ''SELECT * FROM system_schema.types''),
       (''functions'', ''SELECT * FROM system_schema.functions''),
       (''aggregates'', ''SELECT * FROM system_schema.aggregates'')]"
    by (simp add: gated_schema_chain_def logical_tables_def map_filter_simps version_ge_def
        VersionNumber_def)
  have f: "cc_use_schema (example_control_connection CONTROL_STATE_NEW)"
    "cc_cassandra_version (example_control_connection CONTROL_STATE_NEW) = VersionNumber 3 11 0"
    "cc_trace (example_control_connection CONTROL_STATE_NEW) = []"
    by (simp_all add: example_control_connection_def ControlConnection_def)
  show ?thesis
    using bulk_schema_read_follows_version_gates
      [OF example_session_is example_connection_is, of CONTROL_STATE_NEW, THEN conjunct1]
    by (simp add: f chain)
qed

lemma legacy_chain_example:
  "gated_schema_chain True (VersionNumber 2 1 5) =
      [(''keyspaces'', ''SELECT * FROM system.schema_keyspaces''),
       (''tables'', ''SELECT * FROM system.schema_columnfamilies''),
       (''columns'', ''SELECT * FROM system.schema_columns''),
       (''user_types'', ''SELECT * FROM system.schema_usertypes'')]"
  by (simp add: gated_schema_chain_def logical_tables_def map_filter_simps version_ge_def
        VersionNumber_def)

lemma metadata_update_Some:
  "cc_session cc = Some s \<Longrightarrow>
   metadata_update f r cc =
     Inr (cc\<lparr>cc_trace := cc_trace cc @
            map Session_metadata (present_update (f (cc_cassandra_version cc)) r)\<rparr>)"
  by (cases r) (simp_all add: metadata_update_def session_call_Some present_update_def)

lemma bulk_schema_trace:
  assumes "cc_use_schema cc" and "cc_connection cc = Some c" and "cc_session cc = Some s"
  shows "\<exists>cc'. on_query_meta_schema responses cc = Inr cc' \<and>
     cc_trace cc' = cc_trace cc
       @ (if cc_token_aware_routing cc
          then [Session_token_map_keyspaces_add (cc_cassandra_version cc)
                  (chain_result responses ''keyspaces'')] else [])
       @ map Session_metadata
           (Clear_and_update_back (cc_cassandra_version cc)
            # bulk_updates (cc_cassandra_version cc) responses
            @ [Swap_to_back_and_update_front])
       @ (if cc_state cc = CONTROL_STATE_NEW then [Session_on_control_connection_ready] else [])"
  using assms
  by (simp add: on_query_meta_schema_def Let_def session_call_Some and_then_Inr
        metadata_update_Some emit_def bulk_updates_def)

lemma foldl_metadata_updates:
  assumes "\<forall>c \<in> set cs. c \<noteq> Swap_to_back_and_update_front \<and> (\<forall>v. c \<noteq> Clear_and_update_back v)"
    and "md_updating_back m"
  shows "foldl metadata_apply m cs = m\<lparr>md_back := md_back m @ cs\<rparr>"
  using assms
proof (induction cs arbitrary: m)
  case Nil
  then show ?case by simp
next
  case (Cons c cs)
  have step: "metadata_apply m c = m\<lparr>md_back := md_back m @ [c]\<rparr>"
    using Cons.prems by (cases c) simp_all
  show ?case
    unfolding foldl_Cons step
    by (subst Cons.IH) (use Cons.prems in simp_all)
qed

lemma bulk_updates_are_updates:
  "\<forall>c \<in> set (bulk_updates V responses).
     c \<noteq> Swap_to_back_and_update_front \<and> (\<forall>v. c \<noteq> Clear_and_update_back v)"
  by (auto simp add: bulk_updates_def present_update_def split: option.splits)

lemma front_unchanged_before_swap:
  assumes "n \<le> Suc (length (bulk_updates V responses))"
  shows "md_front (foldl metadata_apply m
           (take n (Clear_and_update_back V # bulk_updates V responses
                    @ [Swap_to_back_and_update_front]))) = md_front m"
proof (cases n)
  case 0
  then show ?thesis by simp
next
  case (Suc k)
  let ?m1 = "m\<lparr>md_back := [], md_updating_back := True\<rparr>"
  have k: "k \<le> length (bulk_updates V responses)" using assms Suc by simp
  have tk: "take n (Clear_and_update_back V # bulk_updates V responses @ [Swap_to_back_and_update_front])
      = Clear_and_update_back V # take k (bulk_updates V responses)"
    using k Suc by simp
  have ups: "\<forall>c \<in> set (take k (bulk_updates V responses)).
     c \<noteq> Swap_to_back_and_update_front \<and> (\<forall>v. c \<noteq> Clear_and_update_back v)"
    using bulk_updates_are_updates [of V responses] by (meson in_set_takeD)
  have "foldl metadata_apply ?m1 (take k (bulk_updates V responses)) =
      ?m1\<lparr>md_back := md_back ?m1 @ take k (bulk_updates V responses)\<rparr>"
    by (rule foldl_metadata_updates [OF ups]) simp
  then show ?thesis
    unfolding tk by simp
qed

lemma front_after_swap:
  "md_front (foldl metadata_apply m
           (Clear_and_update_back V # bulk_updates V responses
            @ [Swap_to_back_and_update_front])) = bulk_updates V responses"
proof -
  let ?m1 = "m\<lparr>md_back := [], md_updating_back := True\<rparr>"
  have "foldl metadata_apply ?m1 (bulk_updates V responses) =
      ?m1\<lparr>md_back := md_back ?m1 @ bulk_updates V responses\<rparr>"
    by (rule foldl_metadata_updates [OF bulk_updates_are_updates]) simp
  then show ?thesis by simp
qed

lemma back_filled_before_swap:
  assumes "n \<le> length (bulk_updates V responses)"
  shows "md_back (foldl metadata_apply m
           (take (Suc n) (Clear_and_update_back V # bulk_updates V responses
                    @ [Swap_to_back_and_update_front]))) = take n (bulk_updates V responses)"
proof -
  let ?m1 = "m\<lparr>md_back := [], md_updating_back := True\<rparr>"
  have ups: "\<forall>c \<in> set (take n (bulk_updates V responses)).
     c \<noteq> Swap_to_back_and_update_front \<and> (\<forall>v. c \<noteq> Clear_and_update_back v)"
    using bulk_updates_are_updates [of V responses] by (meson in_set_takeD)
  have "foldl metadata_apply ?m1 (take n (bulk_updates V responses)) =
      ?m1\<lparr>md_back := md_back ?m1 @ take n (bulk_updates V responses)\<rparr>"
    by (rule foldl_metadata_updates [OF ups]) simp
  then show ?thesis
    using assms by simp
qed

text \<open>
  C4. With schema tracking, on a live connection, the handler of the bulk schema read
  calls the metadata in this order: \<open>clear_and_update_back\<close> once, one \<open>update_\<close> call
  for each result that is present, \<open>swap_to_back_and_update_front\<close> once. On the
  double buffer of the spec, the front is what it was after every proper prefix of
  these calls, while the back holds the updates made so far; after the last call the
  front is exactly the new updates. A reader of the front sees the old schema or the
  new one, never a part of the new one.
\<close>

theorem bulk_schema_refresh_swaps_once:
  assumes "cc_use_schema cc" and "cc_connection cc = Some c" and "cc_session cc = Some s"
  shows "(\<exists>cc'. on_query_meta_schema responses cc = Inr cc' \<and>
       cc_trace cc' = cc_trace cc
         @ (if cc_token_aware_routing cc
            then [Session_token_map_keyspaces_add (cc_cassandra_version cc)
                    (chain_result responses ''keyspaces'')] else [])
         @ map Session_metadata
             (Clear_and_update_back (cc_cassandra_version cc)
              # bulk_updates (cc_cassandra_version cc) responses
              @ [Swap_to_back_and_update_front])
         @ (if cc_state cc = CONTROL_STATE_NEW then [Session_on_control_connection_ready] else []))
     \<and> (\<forall>n \<le> length (bulk_updates (cc_cassandra_version cc) responses).
          md_front (foldl metadata_apply m
            (take (Suc n) (Clear_and_update_back (cc_cassandra_version cc)
                     # bulk_updates (cc_cassandra_version cc) responses
                     @ [Swap_to_back_and_update_front]))) = md_front m
          \<and> md_back (foldl metadata_apply m
            (take (Suc n) (Clear_and_update_back (cc_cassandra_version cc)
                     # bulk_updates (cc_cassandra_version cc) responses
                     @ [Swap_to_back_and_update_front])))
            = take n (bulk_updates (cc_cassandra_version cc) responses))
     \<and> md_front (foldl metadata_apply m
            (Clear_and_update_back (cc_cassandra_version cc)
             # bulk_updates (cc_cassandra_version cc) responses
             @ [Swap_to_back_and_update_front]))
         = bulk_updates (cc_cassandra_version cc) responses"
proof (intro conjI allI impI)
  show "\<exists>cc'. on_query_meta_schema responses cc = Inr cc' \<and>
       cc_trace cc' = cc_trace cc
         @ (if cc_token_aware_routing cc
            then [Session_token_map_keyspaces_add (cc_cassandra_version cc)
                    (chain_result responses ''keyspaces'')] else [])
         @ map Session_metadata
             (Clear_and_update_back (cc_cassandra_version cc)
              # bulk_updates (cc_cassandra_version cc) responses
              @ [Swap_to_back_and_update_front])
         @ (if cc_state cc = CONTROL_STATE_NEW then [Session_on_control_connection_ready] else [])"
    by (rule bulk_schema_trace [OF assms])
next
  fix n
  assume n: "n \<le> length (bulk_updates (cc_cassandra_version cc) responses)"
  show "md_front (foldl metadata_apply m
            (take (Suc n) (Clear_and_update_back (cc_cassandra_version cc)
                     # bulk_updates (cc_cassandra_version cc) responses
                     @ [Swap_to_back_and_update_front]))) = md_front m"
    by (rule front_unchanged_before_swap) (use n in simp)
  show "md_back (foldl metadata_apply m
            (take (Suc n) (Clear_and_update_back (cc_cassandra_version cc)
                     # bulk_updates (cc_cassandra_version cc) responses
                     @ [Swap_to_back_and_update_front])))
            = take n (bulk_updates (cc_cassandra_version cc) responses)"
    by (rule back_filled_before_swap [OF n])
next
  show "md_front (foldl metadata_apply m
            (Clear_and_update_back (cc_cassandra_version cc)
             # bulk_updates (cc_cassandra_version cc) responses
             @ [Swap_to_back_and_update_front]))
         = bulk_updates (cc_cassandra_version cc) responses"
    by (rule front_after_swap)
qed

theorem bulk_schema_refresh_swaps_once_witness:
  "\<exists>cc'. on_query_meta_schema [(''keyspaces'', [example_row]), (''tables'', [])]
       (example_control_connection CONTROL_STATE_NEW) = Inr cc' \<and>
     cc_trace cc' =
       [Session_token_map_keyspaces_add (VersionNumber 3 11 0) (Some [example_row]),
        Session_metadata (Clear_and_update_back (VersionNumber 3 11 0)),
        Session_metadata (Update_keyspaces (VersionNumber 3 11 0) [example_row]),
        Session_metadata (Update_tables (VersionNumber 3 11 0) []),
        Session_metadata Swap_to_back_and_update_front,
        Session_on_control_connection_ready]"
proof -
  have f: "cc_use_schema (example_control_connection CONTROL_STATE_NEW)"
    "cc_token_aware_routing (example_control_connection CONTROL_STATE_NEW)"
    "cc_state (example_control_connection CONTROL_STATE_NEW) = CONTROL_STATE_NEW"
    "cc_cassandra_version (example_control_connection CONTROL_STATE_NEW) = VersionNumber 3 11 0"
    "cc_trace (example_control_connection CONTROL_STATE_NEW) = []"
    by (simp_all add: example_control_connection_def ControlConnection_def)
  have u: "bulk_updates (VersionNumber 3 11 0) [(''keyspaces'', [example_row]), (''tables'', [])] =
      [Update_keyspaces (VersionNumber 3 11 0) [example_row], Update_tables (VersionNumber 3 11 0) []]"
    by (simp add: bulk_updates_def present_update_def chain_result_def)
  have k: "chain_result [(''keyspaces'', [example_row]), (''tables'', [])] ''keyspaces'' = Some [example_row]"
    by (simp add: chain_result_def)
  show ?thesis
    using bulk_schema_refresh_swaps_once
      [OF f(1) example_connection_is example_session_is,
       of "[(''keyspaces'', [example_row]), (''tables'', [])]", THEN conjunct1]
    by (simp add: f u k)
qed

text \<open>
  C8. A targeted refresh whose result has no row (for a table or view: no row in the
  tables result and none in the views result, a missing result counting as empty) logs
  one error and does nothing else: no call on the metadata or the token map, no query,
  no defunct.
\<close>

theorem empty_targeted_refresh_is_dropped:
  "(row_count result = 0 \<longrightarrow>
      on_refresh_keyspace keyspace_name result cc = Inr (cc\<lparr>cc_trace := cc_trace cc @ [Log LOG_ERROR]\<rparr>))
   \<and> (row_count result = 0 \<longrightarrow>
      on_refresh_type keyspace_name type_name result cc =
        Inr (cc\<lparr>cc_trace := cc_trace cc @ [Log LOG_ERROR]\<rparr>))
   \<and> (row_count result = 0 \<longrightarrow>
      on_refresh_function keyspace_name function_name arg_types is_aggregate result cc =
        Inr (cc\<lparr>cc_trace := cc_trace cc @ [Log LOG_ERROR]\<rparr>))
   \<and> ((\<forall>t. chain_result responses ''tables'' = Some t \<longrightarrow> row_count t = 0) \<and>
       (\<forall>v. chain_result responses ''views'' = Some v \<longrightarrow> row_count v = 0) \<longrightarrow>
      on_refresh_table_or_view keyspace_name table_or_view_name responses cc =
        Inr (cc\<lparr>cc_trace := cc_trace cc @ [Log LOG_ERROR]\<rparr>))"
  by (auto simp add: on_refresh_keyspace_def on_refresh_type_def on_refresh_function_def
        on_refresh_table_or_view_def emit_def Let_def
      split: option.splits)

theorem empty_targeted_refresh_is_dropped_witness:
  "on_refresh_keyspace ''ks1'' [] (example_control_connection CONTROL_STATE_READY) =
     Inr ((example_control_connection CONTROL_STATE_READY)\<lparr>cc_trace := [Log LOG_ERROR]\<rparr>)
   \<and> on_refresh_table_or_view ''ks1'' ''t1'' [(''tables'', []), (''columns'', [])]
       (example_control_connection CONTROL_STATE_READY) =
     Inr ((example_control_connection CONTROL_STATE_READY)\<lparr>cc_trace := [Log LOG_ERROR]\<rparr>)"
proof -
  have t: "cc_trace (example_control_connection CONTROL_STATE_READY) = []"
    by (simp add: example_control_connection_def ControlConnection_def)
  have r: "row_count [] = 0" by (simp add: row_count_def)
  have h: "(\<forall>t. chain_result [(''tables'', []), (''columns'', [])] ''tables'' = Some t \<longrightarrow> row_count t = 0) \<and>
       (\<forall>v. chain_result [(''tables'', []), (''columns'', [])] ''views'' = Some v \<longrightarrow> row_count v = 0)"
    by (simp add: chain_result_def row_count_def)
  show ?thesis
    using empty_targeted_refresh_is_dropped
        [where result = "[]" and keyspace_name = "''ks1''"
           and cc = "example_control_connection CONTROL_STATE_READY",
         THEN conjunct1, rule_format, OF r]
      empty_targeted_refresh_is_dropped
        [where responses = "[(''tables'', []), (''columns'', [])]" and keyspace_name = "''ks1''"
           and table_or_view_name = "''t1''"
           and cc = "example_control_connection CONTROL_STATE_READY",
         THEN conjunct2, THEN conjunct2, THEN conjunct2, rule_format, OF h]
    by (simp add: t)
qed

section \<open>Properties of the reconciliation of a host row\<close>








lemma no_removal_in_version_warning [simp]:
  "filter removes_from_session (case x of None \<Rightarrow> [Log l] | Some v \<Rightarrow> []) = []"
  by (cases x) simp_all

lemma no_removal_in_peer_warning [simp]:
  "filter removes_from_session
     (case y of None \<Rightarrow> [] | Some v \<Rightarrow> (case f v of None \<Rightarrow> [Log l] | Some la \<Rightarrow> [])) = []"
  by (simp split: option.splits)

lemma no_balancing_in_version_warning [simp]:
  "load_balancing_calls (case x of None \<Rightarrow> [Log l] | Some v \<Rightarrow> []) = []"
  by (cases x) simp_all

lemma no_balancing_in_peer_warning [simp]:
  "load_balancing_calls
     (case y of None \<Rightarrow> [] | Some v \<Rightarrow> (case f v of None \<Rightarrow> [Log l] | Some la \<Rightarrow> [])) = []"
  by (simp split: option.splits)




text \<open>
  A host that is just added has the rack of the row written, and the load-balancing
  policy receives nothing.
\<close>

lemma just_added_host_example:
  "update_node_info example_parse ((example_host ''10.0.0.2'')\<lparr>host_was_just_added := True\<rparr>)
        (example_peers_row ''r2'') ADD_HOST (example_control_connection CONTROL_STATE_READY)
      = Inr ((example_host ''10.0.0.2'')\<lparr>host_was_just_added := True, host_rack := ''r2''\<rparr>,
             example_control_connection CONTROL_STATE_READY)"
  by (simp add: update_node_info_def update_listen_address_def
      update_rack_and_dc_def update_cassandra_version_def update_tokens_def
      get_string_by_name_def get_by_name_def example_peers_row_def example_text_def
      example_parse_def example_defs and_then_host_def with_host_def Let_def)

section \<open>Properties of the event handler\<close>

text \<open>
  C5. An event that arrives while the state is not READY changes nothing: \<open>on_event\<close>
  returns the state as it was, the session's host map and the trace of calls included,
  whatever the event is.
\<close>

theorem events_before_ready_are_ignored:
  "cc_state cc \<noteq> CONTROL_STATE_READY \<Longrightarrow> on_event response cc = Inr cc"
  by (simp add: on_event_def)

theorem events_before_ready_are_ignored_witness:
  "on_event
     \<lparr>ev_event_type = CASS_EVENT_STATUS_CHANGE, ev_affected_node = example_address ''10.0.0.2'',
      ev_topology_change = NEW_NODE, ev_status_change = DOWN, ev_schema_change = CREATED,
      ev_schema_change_target = KEYSPACE, ev_keyspace = [], ev_target = [], ev_arg_types = []\<rparr>
     (example_control_connection CONTROL_STATE_NEW)
   = Inr (example_control_connection CONTROL_STATE_NEW)"
proof -
  have h: "cc_state (example_control_connection CONTROL_STATE_NEW) \<noteq> CONTROL_STATE_READY"
    by (simp add: example_control_connection_def ControlConnection_def)
  show ?thesis
    by (rule events_before_ready_are_ignored [OF h])
qed

text \<open>The same event in the state READY reaches the session.\<close>

lemma down_event_when_ready_example:
  "on_event
     \<lparr>ev_event_type = CASS_EVENT_STATUS_CHANGE, ev_affected_node = example_address ''10.0.0.2'',
      ev_topology_change = NEW_NODE, ev_status_change = DOWN, ev_schema_change = CREATED,
      ev_schema_change_target = KEYSPACE, ev_keyspace = [], ev_target = [], ev_arg_types = []\<rparr>
     (example_control_connection CONTROL_STATE_READY)
   = Inr ((example_control_connection CONTROL_STATE_READY)
            \<lparr>cc_trace := [Log LOG_INFO, Session_on_down (example_host ''10.0.0.2'')]\<rparr>)"
  by (simp add: on_event_def on_down_def get_host_def session_call_def emit_def example_defs)

end
